theory Spec2Isabelle
  imports Complex_Main
begin

section \<open>The auction application of \<^verbatim>\<open>src/index.js\<close>\<close>

text \<open>
  Every peer runs the same program. It keeps one append-only Hypercore per auction name in a
  Corestore, reads commands from the terminal (\<^verbatim>\<open>processAction\<close>) and messages from the
  connected peers (\<^verbatim>\<open>processMessage\<close>); both end in \<^verbatim>\<open>openAuction\<close>,
  \<^verbatim>\<open>bidAuction\<close> or \<^verbatim>\<open>closeAuction\<close>, which read the last block of the core, check
  it and append one block through \<^verbatim>\<open>updateCore\<close>.

  The theory has two parts.
  \<^item> The first part is the three operations as one call of them, on a proposal of strings,
    from the read of the last block to the append with nothing in between. The terminal
    gives strings, and the messages that this program writes carry exactly those strings.
    A block holds \<^verbatim>\<open>JSON.stringify(auction)\<close> and is read back with
    \<^verbatim>\<open>JSON.parse\<close>; on an object of strings and one integer that is the identity, so
    a core is a list of such objects. \<^verbatim>\<open>Number\<close>, the conversion of the JavaScript
    runtime, is a parameter of the function that uses it. Only the order of its results
    matters to the program, so a result is \<open>NaN\<close> or a point of a linear order, here
    the rationals (the two infinities of the runtime can stand above and below every other
    value).
  \<^item> The second part is a replica as a whole: lines from the terminal and payloads from
    the peers, with whatever fields they decode to, and operations that are suspended
    between their read and their append while others run.
\<close>

section \<open>The data\<close>

subsection \<open>JavaScript numbers, as far as \<^verbatim>\<open>\<le>\<close> sees them\<close>

datatype jsnum = NaN | Num rat

text \<open>The operator \<^verbatim>\<open>a <= b\<close> on numbers: false as soon as one side is \<open>NaN\<close>.\<close>

fun js_le :: "jsnum \<Rightarrow> jsnum \<Rightarrow> bool" where
  "js_le (Num a) (Num b) = (a \<le> b)"
| "js_le _ _ = False"

text \<open>The operator \<^verbatim>\<open>a < b\<close>, used to say what a strictly increasing sequence is.\<close>

fun js_less :: "jsnum \<Rightarrow> jsnum \<Rightarrow> bool" where
  "js_less (Num a) (Num b) = (a < b)"
| "js_less _ _ = False"

subsection \<open>Entries, messages, the console and the state\<close>

type_synonym peer = string

text \<open>
  The object built by \<^verbatim>\<open>updateCore\<close>: \<^verbatim>\<open>{type, name, owner, actor, price, time}\<close>.
  The fields carry the prefix \<open>a_\<close> because the functions below have parameters called
  \<open>name\<close>, \<open>price\<close>, \<open>owner\<close> and \<open>actor\<close>.
\<close>

record auction =
  a_type :: string
  a_name :: string
  a_owner :: peer
  a_actor :: peer
  a_price :: string
  a_time :: nat

text \<open>The object written to the peers by \<^verbatim>\<open>processAction\<close>: \<^verbatim>\<open>{type, name, price}\<close>.\<close>

record msg =
  m_type :: string
  m_name :: string
  m_price :: string

text \<open>One constructor for each \<^verbatim>\<open>console.log\<close> of the modelled functions.\<close>

datatype logline =
    InfoOpened peer string string
      \<comment> \<open>\<^verbatim>\<open>[info] Auction opened by ${peer} for ${name} at ${price}\<close>\<close>
  | InfoBid peer string string
      \<comment> \<open>\<^verbatim>\<open>[info] Bid made by ${peer} for ${name} at ${price}\<close>\<close>
  | InfoClosed peer string string
      \<comment> \<open>\<^verbatim>\<open>[info] Auction closed by ${peer} for ${name} at ${price}\<close>\<close>
  | InfoUpdated nat string
      \<comment> \<open>\<^verbatim>\<open>[info] Updated core length: ${core.length} for auction: ${name}\<close>\<close>
  | ErrorReopen string peer
      \<comment> \<open>\<^verbatim>\<open>[error] Auction ${name} can not be reopend by ${peer}\<close>\<close>
  | ErrorNotFound string
      \<comment> \<open>\<^verbatim>\<open>[error] Auction ${name} not found\<close>\<close>
  | ErrorClosed string
      \<comment> \<open>\<^verbatim>\<open>[error] Closed auction ${name} can not be bid anymore\<close>\<close>
  | ErrorLowerPrice string string peer string
      \<comment> \<open>\<^verbatim>\<open>[error] Not allowing lower price bid ${price} for ${name} by ${peer}, should be higher than ${lastAction.price}\<close>\<close>
  | ErrorNotOwner string peer
      \<comment> \<open>\<^verbatim>\<open>[error] Auction ${name} can not be closed by ${peer}, because actor is not the owner\<close>\<close>
  | ErrorDifferentPrice string string peer string
      \<comment> \<open>\<^verbatim>\<open>[error] Auction ${name} can not be closed with different price ${price} by ${peer}, the price should be ${lastAction.price}\<close>\<close>
  | ErrorInvalidActionUsage string
      \<comment> \<open>\<^verbatim>\<open>[error] Invalid action: ${action}, input like 'open pic1 50', ...\<close>\<close>
  | ErrorInvalidAction string
      \<comment> \<open>\<^verbatim>\<open>[error] Invalid action: ${action}\<close>\<close>
  | ErrorMessageFormat peer
      \<comment> \<open>\<^verbatim>\<open>[error] Message format error from ${peer}, ${rawMessage}, ${e}\<close>\<close>

text \<open>
  The state of one replica: its own public key, the Corestore (the core of every name, empty
  until something is appended), \<^verbatim>\<open>swarm.connections\<close>, every \<^verbatim>\<open>peer.write\<close> made so
  far, the console, and the reading of \<^verbatim>\<open>Date.now()\<close>.
\<close>

record world =
  localPeer :: peer
  store :: "string \<Rightarrow> auction list"
  connections :: "peer list"
  written :: "(peer \<times> msg) list"
  console :: "logline list"
  now :: nat

definition console_log :: "logline \<Rightarrow> world \<Rightarrow> world" where
  "console_log line st = st\<lparr>console := console st @ [line]\<rparr>"

section \<open>One operation on a proposal of strings\<close>

subsection \<open>The ledger and the three operations\<close>

definition updateCore ::
  "string \<Rightarrow> string \<Rightarrow> peer \<Rightarrow> peer \<Rightarrow> string \<Rightarrow> world \<Rightarrow> world" where
  "updateCore type name owner actor price st =
     (let auction = \<lparr>a_type = type, a_name = name, a_owner = owner, a_actor = actor,
                      a_price = price, a_time = now st\<rparr>;
          core = store st name @ [auction]
      in console_log (InfoUpdated (length core) name) (st\<lparr>store := (store st)(name := core)\<rparr>))"

definition openAuction :: "peer \<Rightarrow> string \<Rightarrow> string \<Rightarrow> world \<Rightarrow> bool \<times> world" where
  "openAuction peer name price st0 =
     (let st = console_log (InfoOpened peer name price) st0;
          core = store st name
      in if length core \<noteq> 0 then
           (let lastAction = core ! (length core - 1)
            in if a_type lastAction \<noteq> ''close'' \<or> a_owner lastAction \<noteq> peer
               then (False, console_log (ErrorReopen name peer) st)
               else (True, updateCore ''open'' name (a_owner lastAction) peer price st))
         else (True, updateCore ''open'' name peer peer price st))"

definition bidAuction ::
  "(string \<Rightarrow> jsnum) \<Rightarrow> peer \<Rightarrow> string \<Rightarrow> string \<Rightarrow> world \<Rightarrow> bool \<times> world" where
  "bidAuction Number peer name price st0 =
     (let st = console_log (InfoBid peer name price) st0;
          core = store st name
      in if length core = 0 then (False, console_log (ErrorNotFound name) st)
         else
           (let lastAction = core ! (length core - 1)
            in if a_type lastAction = ''close''
               then (False, console_log (ErrorClosed name) st)
               else if js_le (Number price) (Number (a_price lastAction))
               then (False, console_log (ErrorLowerPrice price name peer (a_price lastAction)) st)
               else (True, updateCore ''bid'' name (a_owner lastAction) peer price st)))"

definition closeAuction :: "peer \<Rightarrow> string \<Rightarrow> string \<Rightarrow> world \<Rightarrow> bool \<times> world" where
  "closeAuction peer name price st0 =
     (let st = console_log (InfoClosed peer name price) st0;
          core = store st name
      in if length core = 0 then (False, console_log (ErrorNotFound name) st)
         else
           (let lastAction = core ! (length core - 1)
            in if a_owner lastAction \<noteq> peer
               then (False, console_log (ErrorNotOwner name peer) st)
               else if a_price lastAction \<noteq> price
               then (False, console_log (ErrorDifferentPrice name price peer (a_price lastAction)) st)
               else (True, updateCore ''close'' name (a_actor lastAction) peer price st)))"

text \<open>
  The state the program sets up: the Corestore directory is removed at start, so every core
  is empty.
\<close>

definition start :: "peer \<Rightarrow> world" where
  "start p = \<lparr>localPeer = p, store = (\<lambda>name. []), connections = [], written = [],
              console = [], now = 0\<rparr>"

subsection \<open>An instance of \<^verbatim>\<open>Number\<close> for the examples\<close>

text \<open>
  \<open>decimal\<close> reads the strings that \<^verbatim>\<open>Number\<close> reads as plain decimal literals: an
  optional sign, digits, and an optional point with digits on at least one side; the empty
  string is 0. It answers \<open>NaN\<close> for everything else, also for the exponents, the prefixed
  literals and \<^verbatim>\<open>Infinity\<close> that the runtime accepts, and it does not round. It is used
  below only at \<open>''75''\<close>, \<open>''75.5''\<close>, \<open>''80''\<close>, \<open>''80.0''\<close>, \<open>''10''\<close>,
  \<open>''90''\<close> and \<open>''abc''\<close>, where it agrees with the runtime. The general theorems
  are about any \<open>Number\<close>.
\<close>

definition digit :: "char \<Rightarrow> nat option" where
  "digit c =
     (let code = (of_char c :: nat)
      in if 48 \<le> code \<and> code \<le> 57 then Some (code - 48) else None)"

fun digits :: "nat \<Rightarrow> string \<Rightarrow> nat option" where
  "digits acc [] = Some acc"
| "digits acc (c # cs) =
     (case digit c of None \<Rightarrow> None | Some d \<Rightarrow> digits (10 * acc + d) cs)"

definition unsigned :: "string \<Rightarrow> rat option" where
  "unsigned s =
     (let ip = takeWhile (\<lambda>c. c \<noteq> CHR ''.'') s;
          rest = dropWhile (\<lambda>c. c \<noteq> CHR ''.'') s;
          fp = tl rest
      in if ip = [] \<and> fp = [] then None
         else case (digits 0 ip, digits 0 fp) of
                (Some a, Some b) \<Rightarrow> Some (of_nat a + of_nat b / 10 ^ length fp)
              | _ \<Rightarrow> None)"

definition decimal :: "string \<Rightarrow> jsnum" where
  "decimal s =
     (if s = [] then Num 0
      else if hd s = CHR ''-''
        then (case unsigned (tl s) of None \<Rightarrow> NaN | Some r \<Rightarrow> Num (- r))
      else if hd s = CHR ''+''
        then (case unsigned (tl s) of None \<Rightarrow> NaN | Some r \<Rightarrow> Num r)
      else (case unsigned s of None \<Rightarrow> NaN | Some r \<Rightarrow> Num r))"

subsection \<open>The sample scenario\<close>

text \<open>
  The scenario of the header of \<^verbatim>\<open>src/index.js\<close> for one picture, as one replica sees
  it: A opens \<open>pic1\<close> at 75, B bids 75, C bids 75.5, B bids 80, A closes at 80.
\<close>

definition pic1_opened :: world where
  "pic1_opened = snd (openAuction ''A'' ''pic1'' ''75'' (start ''A''))"

definition pic1_bid_75 :: world where
  "pic1_bid_75 = snd (bidAuction decimal ''B'' ''pic1'' ''75'' pic1_opened)"

definition pic1_bid_75_5 :: world where
  "pic1_bid_75_5 = snd (bidAuction decimal ''C'' ''pic1'' ''75.5'' pic1_bid_75)"

definition pic1_bid_80 :: world where
  "pic1_bid_80 = snd (bidAuction decimal ''B'' ''pic1'' ''80'' pic1_bid_75_5)"

definition pic1_closed :: world where
  "pic1_closed = snd (closeAuction ''A'' ''pic1'' ''80'' pic1_bid_80)"

section \<open>The replica: decoded payloads and operations in flight\<close>

text \<open>
  The three operations above take a proposal of strings and go from the read of the last
  block to the append with nothing in between. The program does more than that.
  \<^item> \<^verbatim>\<open>processMessage\<close> hands \<^verbatim>\<open>msg.name\<close> and \<^verbatim>\<open>msg.price\<close> to the
    operations as they come out of \<^verbatim>\<open>JSON.parse\<close>: a field may be missing or may be
    any JSON value.
  \<^item> The operations are \<^verbatim>\<open>async\<close>. \<^verbatim>\<open>processMessage\<close> does not wait for them, and
    nothing waits for \<^verbatim>\<open>processAction\<close> or \<^verbatim>\<open>processMessage\<close>, so a second
    operation can read the last block of a core after a first one has read it and before
    the first one appends.
  This section models both. A call of an operation is cut where it waits for the block it
  reads: \<open>called\<close> is the part before, the functions with the suffix \<open>_js\<close> are the
  part after, and \<open>resume\<close> runs the part after for a call in flight. What the
  JavaScript runtime and the Corestore library do to a value is not in the source; it is a
  parameter, the record \<open>runtime\<close>.
\<close>

subsection \<open>Decoded values\<close>

text \<open>
  What \<^verbatim>\<open>JSON.parse\<close> returns, and \<^verbatim>\<open>undefined\<close> for a field that is not there. A
  numeral too large for a double is read as an infinity; the flag of \<open>JInfinity\<close> is
  true for the negative one.
\<close>

datatype jsval =
    JUndefined
  | JNull
  | JBool bool
  | JNum rat
  | JInfinity bool
  | JStr string
  | JArr "jsval list"
  | JObj "(string \<times> jsval) list"

text \<open>
  \<^verbatim>\<open>msg.type\<close>, \<^verbatim>\<open>msg.name\<close> and \<^verbatim>\<open>msg.price\<close> on a value that is neither
  \<^verbatim>\<open>null\<close> nor \<^verbatim>\<open>undefined\<close>: the property of an object, and \<^verbatim>\<open>undefined\<close> for
  a missing one and on every other value (no prototype has one of these three keys). An
  object has every key once, as \<^verbatim>\<open>JSON.parse\<close> leaves it.
\<close>

definition member :: "jsval \<Rightarrow> string \<Rightarrow> jsval" where
  "member m key =
     (case m of
        JObj properties \<Rightarrow> (case map_of properties key of Some v \<Rightarrow> v | None \<Rightarrow> JUndefined)
      | _ \<Rightarrow> JUndefined)"

text \<open>
  A value as it is read back from a block. \<^verbatim>\<open>JSON.stringify\<close> writes an infinity as
  \<^verbatim>\<open>null\<close>; it leaves out a property that is \<^verbatim>\<open>undefined\<close>, so that the price
  of a block written without one is \<^verbatim>\<open>undefined\<close> again when the block is read;
  inside a value it writes \<^verbatim>\<open>undefined\<close> in an array as \<^verbatim>\<open>null\<close>.
\<close>

primrec stored :: "jsval \<Rightarrow> jsval" where
  "stored JUndefined = JUndefined"
| "stored JNull = JNull"
| "stored (JBool b) = JBool b"
| "stored (JNum r) = JNum r"
| "stored (JInfinity negative) = JNull"
| "stored (JStr s) = JStr s"
| "stored (JArr vs) =
     JArr (map (\<lambda>v. if v = JUndefined then JNull else v) (map stored vs))"
| "stored (JObj properties) =
     JObj (filter (\<lambda>p. snd p \<noteq> JUndefined) (map (map_prod id stored) properties))"

text \<open>
  The runtime and the library, as far as the program calls them on a value:
  \<^item> \<open>toString\<close>, the text of \<^verbatim>\<open>${v}\<close> in a template literal, or \<open>None\<close> when the
    conversion throws;
  \<^item> \<open>toNumber\<close>, the result of \<^verbatim>\<open>Number(v)\<close>, or \<open>None\<close> when it throws;
  \<^item> \<open>looseNe\<close>, the result of \<^verbatim>\<open>a != b\<close>, or \<open>None\<close> when it throws;
  \<^item> \<open>coreOf\<close>, the core that \<^verbatim>\<open>session.get({ name })\<close> and
    \<^verbatim>\<open>core.ready()\<close> give for a name, or \<open>None\<close> when they throw.
\<close>

record runtime =
  toString :: "jsval \<Rightarrow> string option"
  toNumber :: "jsval \<Rightarrow> jsnum option"
  looseNe :: "jsval \<Rightarrow> jsval \<Rightarrow> bool option"
  coreOf :: "jsval \<Rightarrow> string option"

subsection \<open>The state of a replica\<close>

text \<open>A block of a core, read back: the object of \<^verbatim>\<open>updateCore\<close> with any name and price.\<close>

record entry =
  e_type :: string
  e_name :: jsval
  e_owner :: peer
  e_actor :: peer
  e_price :: jsval
  e_time :: nat

text \<open>
  A call of \<^verbatim>\<open>openAuction\<close>, \<^verbatim>\<open>bidAuction\<close> or \<^verbatim>\<open>closeAuction\<close> that has read
  the core and waits: which of the three, its arguments with their texts, the core, the
  block it read (\<open>None\<close> when \<^verbatim>\<open>core.length\<close> was 0), and the message that
  \<^verbatim>\<open>processAction\<close> writes when the call returns true (\<open>None\<close> for a call made by
  \<^verbatim>\<open>processMessage\<close>).
\<close>

record call =
  c_type :: string
  c_peer :: peer
  c_name :: jsval
  c_price :: jsval
  c_nameText :: string
  c_priceText :: string
  c_core :: string
  c_lastAction :: "entry option"
  c_msg :: "msg option"

record replica =
  r_localPeer :: peer
  r_store :: "string \<Rightarrow> entry list"
  r_connections :: "peer list"
  r_written :: "(peer \<times> msg) list"
  r_console :: "logline list"
  r_now :: nat
  r_pending :: "call list"

text \<open>How a call ends: the \<^verbatim>\<open>async\<close> function returns a boolean, or it throws.\<close>

datatype outcome = Returned bool | Threw

definition say :: "logline \<Rightarrow> replica \<Rightarrow> replica" where
  "say line st = st\<lparr>r_console := r_console st @ [line]\<rparr>"

subsection \<open>A call up to the read of the core\<close>

text \<open>
  The three operations begin alike: the line on the console (the template literal throws
  when a value has no text), \<^verbatim>\<open>store.session()\<close>, \<^verbatim>\<open>session.get({ name })\<close>,
  \<^verbatim>\<open>core.ready()\<close>, then \<^verbatim>\<open>core.length\<close> and, when it is not 0,
  \<^verbatim>\<open>core.get(core.length - 1)\<close>. The call then waits, and is put with the calls in
  flight. A call that throws leaves nothing in flight. In the source the line is written
  when the call is made and the core is read after \<^verbatim>\<open>core.ready()\<close>; \<open>called\<close>
  is the call at the moment of its read, which moves the line on the console and nothing
  else.
\<close>

definition lastBlock :: "entry list \<Rightarrow> entry option" where
  "lastBlock core = (if length core \<noteq> 0 then Some (core ! (length core - 1)) else None)"

definition infoLine :: "string \<Rightarrow> peer \<Rightarrow> string \<Rightarrow> string \<Rightarrow> logline" where
  "infoLine type =
     (if type = ''open'' then InfoOpened else if type = ''bid'' then InfoBid else InfoClosed)"

definition called ::
  "runtime \<Rightarrow> string \<Rightarrow> msg option \<Rightarrow> peer \<Rightarrow> jsval \<Rightarrow> jsval \<Rightarrow> replica \<Rightarrow> replica" where
  "called rt type message peer name price st0 =
     (case toString rt name of
        None \<Rightarrow> st0
      | Some nameText \<Rightarrow>
          (case toString rt price of
             None \<Rightarrow> st0
           | Some priceText \<Rightarrow>
               (let st = say (infoLine type peer nameText priceText) st0
                in case coreOf rt name of
                     None \<Rightarrow> st
                   | Some k \<Rightarrow>
                       st\<lparr>r_pending := r_pending st @
                           [\<lparr>c_type = type, c_peer = peer, c_name = name, c_price = price,
                             c_nameText = nameText, c_priceText = priceText, c_core = k,
                             c_lastAction = lastBlock (r_store st k), c_msg = message\<rparr>]\<rparr>)))"

subsection \<open>A call from the read of the core on\<close>

definition updateCore_js :: "string \<Rightarrow> call \<Rightarrow> peer \<Rightarrow> replica \<Rightarrow> replica" where
  "updateCore_js type c owner st =
     (let auction = \<lparr>e_type = type, e_name = stored (c_name c), e_owner = owner,
                      e_actor = c_peer c, e_price = stored (c_price c), e_time = r_now st\<rparr>;
          core = r_store st (c_core c) @ [auction]
      in say (InfoUpdated (length core) (c_nameText c))
           (st\<lparr>r_store := (r_store st)(c_core c := core)\<rparr>))"

definition openAuction_js :: "runtime \<Rightarrow> call \<Rightarrow> replica \<Rightarrow> outcome \<times> replica" where
  "openAuction_js rt c st =
     (case c_lastAction c of
        None \<Rightarrow> (Returned True, updateCore_js ''open'' c (c_peer c) st)
      | Some lastAction \<Rightarrow>
          if e_type lastAction \<noteq> ''close'' \<or> e_owner lastAction \<noteq> c_peer c
          then (Returned False, say (ErrorReopen (c_nameText c) (c_peer c)) st)
          else (Returned True, updateCore_js ''open'' c (e_owner lastAction) st))"

definition bidAuction_js :: "runtime \<Rightarrow> call \<Rightarrow> replica \<Rightarrow> outcome \<times> replica" where
  "bidAuction_js rt c st =
     (case c_lastAction c of
        None \<Rightarrow> (Returned False, say (ErrorNotFound (c_nameText c)) st)
      | Some lastAction \<Rightarrow>
          if e_type lastAction = ''close''
          then (Returned False, say (ErrorClosed (c_nameText c)) st)
          else
            (case toNumber rt (c_price c) of
               None \<Rightarrow> (Threw, st)
             | Some a \<Rightarrow>
                 (case toNumber rt (e_price lastAction) of
                    None \<Rightarrow> (Threw, st)
                  | Some b \<Rightarrow>
                      if js_le a b
                      then (case toString rt (e_price lastAction) of
                              None \<Rightarrow> (Threw, st)
                            | Some lastText \<Rightarrow>
                                (Returned False,
                                 say (ErrorLowerPrice (c_priceText c) (c_nameText c) (c_peer c)
                                        lastText) st))
                      else (Returned True, updateCore_js ''bid'' c (e_owner lastAction) st))))"

definition closeAuction_js :: "runtime \<Rightarrow> call \<Rightarrow> replica \<Rightarrow> outcome \<times> replica" where
  "closeAuction_js rt c st =
     (case c_lastAction c of
        None \<Rightarrow> (Returned False, say (ErrorNotFound (c_nameText c)) st)
      | Some lastAction \<Rightarrow>
          if e_owner lastAction \<noteq> c_peer c
          then (Returned False, say (ErrorNotOwner (c_nameText c) (c_peer c)) st)
          else
            (case looseNe rt (e_price lastAction) (c_price c) of
               None \<Rightarrow> (Threw, st)
             | Some different \<Rightarrow>
                 if different
                 then (case toString rt (e_price lastAction) of
                         None \<Rightarrow> (Threw, st)
                       | Some lastText \<Rightarrow>
                           (Returned False,
                            say (ErrorDifferentPrice (c_nameText c) (c_priceText c) (c_peer c)
                                   lastText) st))
                 else (Returned True, updateCore_js ''close'' c (e_actor lastAction) st)))"

text \<open>
  The entry that a call appends when it returns true, as the three functions above build
  it: the owner is the peer itself for an open on an empty core, the actor of the block
  read for a close, and the owner of the block read otherwise.
\<close>

definition appended :: "call \<Rightarrow> nat \<Rightarrow> entry" where
  "appended c t =
     \<lparr>e_type = (if c_type c = ''open'' \<or> c_type c = ''bid'' then c_type c else ''close''),
      e_name = stored (c_name c),
      e_owner = (case c_lastAction c of
                   None \<Rightarrow> c_peer c
                 | Some lastAction \<Rightarrow>
                     if c_type c = ''open'' \<or> c_type c = ''bid'' then e_owner lastAction
                     else e_actor lastAction),
      e_actor = c_peer c, e_price = stored (c_price c), e_time = t\<rparr>"

definition settle :: "runtime \<Rightarrow> call \<Rightarrow> replica \<Rightarrow> outcome \<times> replica" where
  "settle rt c st =
     (if c_type c = ''open'' then openAuction_js rt c st
      else if c_type c = ''bid'' then bidAuction_js rt c st
      else closeAuction_js rt c st)"

text \<open>
  The loop \<^verbatim>\<open>for (const peer of peers) peer.write(JSON.stringify(msg))\<close> at the end of
  \<^verbatim>\<open>processAction\<close>.
\<close>

definition broadcast :: "msg \<Rightarrow> replica \<Rightarrow> replica" where
  "broadcast m st = st\<lparr>r_written := r_written st @ map (\<lambda>peer. (peer, m)) (r_connections st)\<rparr>"

text \<open>
  The call at position \<open>i\<close> of the calls in flight goes on to its end. When
  \<^verbatim>\<open>processAction\<close> made the call, its \<^verbatim>\<open>if (actionResult)\<close> follows. In the
  source the append, the return and the loop over the connections are separated by more
  \<^verbatim>\<open>await\<close>s; what comes after the append reads only the connections and writes
  only to the peers and the console, so a change of the connections in between is the
  same as one just before \<open>resume\<close>.
\<close>

definition resume :: "runtime \<Rightarrow> nat \<Rightarrow> replica \<Rightarrow> replica" where
  "resume rt i st =
     (if i < length (r_pending st)
      then
        (let c = r_pending st ! i;
             rest = take i (r_pending st) @ drop (Suc i) (r_pending st);
             ended = settle rt c (st\<lparr>r_pending := rest\<rparr>)
         in case c_msg c of
              None \<Rightarrow> snd ended
            | Some m \<Rightarrow> if fst ended = Returned True then broadcast m (snd ended) else snd ended)
      else st)"

subsection \<open>The terminal and the peers\<close>

text \<open>
  \<^verbatim>\<open>action.trim().split(/\s+/)\<close>. A \<open>char\<close> is a code unit below 256; the white space
  among them is space, tab, line feed, vertical tab, form feed, carriage return and the
  no-break space.
\<close>

definition isSpace :: "char \<Rightarrow> bool" where
  "isSpace c = (c = CHR '' '' \<or> c = CHR 0x09 \<or> c = CHR 0x0A \<or> c = CHR 0x0B
                \<or> c = CHR 0x0C \<or> c = CHR 0x0D \<or> c = CHR 0xA0)"

definition trim :: "string \<Rightarrow> string" where
  "trim s = rev (dropWhile isSpace (rev (dropWhile isSpace s)))"

fun split :: "string \<Rightarrow> string \<Rightarrow> string list" where
  "split cur [] = [cur]"
| "split cur (c # cs) =
     (if isSpace c
      then (if cs \<noteq> [] \<and> isSpace (hd cs) then split cur cs else cur # split [] cs)
      else split (cur @ [c]) cs)"

text \<open>
  \<^verbatim>\<open>processAction\<close> up to its \<^verbatim>\<open>await\<close>: the call is made for the local peer with
  two tokens of the line, and carries the message to write when it returns true.
\<close>

definition processAction :: "runtime \<Rightarrow> string \<Rightarrow> replica \<Rightarrow> replica" where
  "processAction rt action st =
     (let arr = split [] (trim action)
      in if length arr < 3 then say (ErrorInvalidActionUsage action) st
         else
           (let message = \<lparr>m_type = arr ! 0, m_name = arr ! 1, m_price = arr ! 2\<rparr>
            in if arr ! 0 = ''open''
                 then called rt ''open'' (Some message) (r_localPeer st) (JStr (arr ! 1))
                        (JStr (arr ! 2)) st
               else if arr ! 0 = ''bid''
                 then called rt ''bid'' (Some message) (r_localPeer st) (JStr (arr ! 1))
                        (JStr (arr ! 2)) st
               else if arr ! 0 = ''close''
                 then called rt ''close'' (Some message) (r_localPeer st) (JStr (arr ! 1))
                        (JStr (arr ! 2)) st
               else say (ErrorInvalidAction action) st))"

text \<open>
  \<open>processMessage\<close> takes what \<^verbatim>\<open>JSON.parse(rawMessage)\<close> gives: \<open>None\<close> when it throws,
  the value otherwise. \<^verbatim>\<open>msg.type\<close> throws on \<^verbatim>\<open>null\<close>. The three calls are made
  without waiting for them.
\<close>

definition processMessage :: "runtime \<Rightarrow> peer \<Rightarrow> jsval option \<Rightarrow> replica \<Rightarrow> replica" where
  "processMessage rt peer rawMessage st =
     (case rawMessage of
        None \<Rightarrow> say (ErrorMessageFormat peer) st
      | Some m \<Rightarrow>
          if m = JNull \<or> m = JUndefined then st
          else
            (let st1 = (if member m ''type'' = JStr ''open''
                        then called rt ''open'' None peer (member m ''name'') (member m ''price'') st
                        else st);
                 st2 = (if member m ''type'' = JStr ''bid''
                        then called rt ''bid'' None peer (member m ''name'') (member m ''price'') st1
                        else st1)
             in if member m ''type'' = JStr ''close''
                then called rt ''close'' None peer (member m ''name'') (member m ''price'') st2
                else st2))"

subsection \<open>Runs of a replica\<close>

text \<open>
  What can happen to a replica: a line typed at the terminal, data from a connected peer,
  a call in flight going on, a change of the set of connections, and the clock moving on.
  A run starts from the state the program sets up: the Corestore directory is removed at
  start, so every core is empty.
\<close>

datatype event =
    Line string
  | Data peer "jsval option"
  | Resume nat
  | Update "peer list"
  | Tick nat

fun step :: "runtime \<Rightarrow> replica \<Rightarrow> event \<Rightarrow> replica" where
  "step rt st (Line action) = processAction rt action st"
| "step rt st (Data peer rawMessage) = processMessage rt peer rawMessage st"
| "step rt st (Resume i) = resume rt i st"
| "step rt st (Update peers) = st\<lparr>r_connections := peers\<rparr>"
| "step rt st (Tick t) = st\<lparr>r_now := t\<rparr>"

definition run :: "runtime \<Rightarrow> replica \<Rightarrow> event list \<Rightarrow> replica" where
  "run rt st evs = foldl (step rt) st evs"

definition boot :: "peer \<Rightarrow> replica" where
  "boot p = \<lparr>r_localPeer = p, r_store = (\<lambda>k. []), r_connections = [], r_written = [],
             r_console = [], r_now = 0, r_pending = []\<rparr>"

text \<open>
  The operations on the core \<open>k\<close> go one at a time along a run: in no state that the run
  goes through are two calls on \<open>k\<close> in flight.
\<close>

definition inFlight :: "string \<Rightarrow> replica \<Rightarrow> call list" where
  "inFlight k st = filter (\<lambda>c. c_core c = k) (r_pending st)"

fun oneAtATime :: "runtime \<Rightarrow> string \<Rightarrow> replica \<Rightarrow> event list \<Rightarrow> bool" where
  "oneAtATime rt k st [] = (length (inFlight k st) \<le> 1)"
| "oneAtATime rt k st (ev # evs) =
     (length (inFlight k st) \<le> 1 \<and> oneAtATime rt k (step rt st ev) evs)"

subsection \<open>The two models side by side\<close>

text \<open>
  A state of the first section as a state of a replica with no call in flight, every name
  and every price a string.
\<close>

definition entryOf :: "auction \<Rightarrow> entry" where
  "entryOf a = \<lparr>e_type = a_type a, e_name = JStr (a_name a), e_owner = a_owner a,
                 e_actor = a_actor a, e_price = JStr (a_price a), e_time = a_time a\<rparr>"

definition replicaOf :: "world \<Rightarrow> replica" where
  "replicaOf w = \<lparr>r_localPeer = localPeer w, r_store = (\<lambda>k. map entryOf (store w k)),
                   r_connections = connections w, r_written = written w,
                   r_console = console w, r_now = now w, r_pending = []\<rparr>"

text \<open>
  What the runtime does on strings: a string is its own text, \<^verbatim>\<open>!=\<close> on two strings
  compares them, and \<^verbatim>\<open>Number\<close> on a string is the conversion \<open>N\<close>.
\<close>

definition onStrings :: "runtime \<Rightarrow> (string \<Rightarrow> jsnum) \<Rightarrow> bool" where
  "onStrings rt N =
     ((\<forall>s. toString rt (JStr s) = Some s) \<and>
      (\<forall>s. toNumber rt (JStr s) = Some (N s)) \<and>
      (\<forall>s t. looseNe rt (JStr s) (JStr t) = Some (s \<noteq> t)))"

subsection \<open>An instance of the runtime for the examples\<close>

text \<open>
  \<open>js\<close> follows the runtime on \<^verbatim>\<open>undefined\<close>, \<^verbatim>\<open>null\<close>, the booleans, the
  numbers that are integers of fewer than 22 digits, and the strings, with \<open>decimal\<close>
  for \<^verbatim>\<open>Number\<close> on a string (so as far as \<open>decimal\<close> goes). A core is given for
  every name that is a string and not empty. On every other value \<open>js\<close> answers
  \<open>None\<close>, which need not be what the runtime does. The examples below use it on
  strings and on \<^verbatim>\<open>undefined\<close> only, and the general theorems are about any runtime.
\<close>

text \<open>The decimal digits of a number of at most \<open>k\<close> digits.\<close>

primrec digitsOf :: "nat \<Rightarrow> int \<Rightarrow> string" where
  "digitsOf 0 n = []"
| "digitsOf (Suc k) n =
     (if n < 10 then [char_of (48 + n)]
      else digitsOf k (n div 10) @ [char_of (48 + n mod 10)])"

definition textOf :: "jsval \<Rightarrow> string option" where
  "textOf v =
     (case v of
        JUndefined \<Rightarrow> Some ''undefined''
      | JNull \<Rightarrow> Some ''null''
      | JBool b \<Rightarrow> Some (if b then ''true'' else ''false'')
      | JNum r \<Rightarrow>
          if r = of_int \<lfloor>r\<rfloor> \<and> \<bar>r\<bar> < 10 ^ 21
          then Some ((if r < 0 then ''-'' else []) @ digitsOf 21 \<bar>\<lfloor>r\<rfloor>\<bar>)
          else None
      | JStr s \<Rightarrow> Some s
      | _ \<Rightarrow> None)"

definition numberOf :: "jsval \<Rightarrow> jsnum option" where
  "numberOf v =
     (case v of
        JUndefined \<Rightarrow> Some NaN
      | JNull \<Rightarrow> Some (Num 0)
      | JBool b \<Rightarrow> Some (Num (if b then 1 else 0))
      | JNum r \<Rightarrow> Some (Num r)
      | JStr s \<Rightarrow> Some (decimal s)
      | _ \<Rightarrow> None)"

text \<open>
  \<^verbatim>\<open>a == b\<close>: two values of one kind are compared as they are, \<^verbatim>\<open>null\<close> and
  \<^verbatim>\<open>undefined\<close> are equal to each other and to nothing else, and otherwise a boolean
  and a string are compared as numbers.
\<close>

definition looseEq :: "jsval \<Rightarrow> jsval \<Rightarrow> bool option" where
  "looseEq a b =
     (case (a, b) of
        (JStr s, JStr t) \<Rightarrow> Some (s = t)
      | (JNum r, JNum q) \<Rightarrow> Some (r = q)
      | (JBool x, JBool y) \<Rightarrow> Some (x = y)
      | _ \<Rightarrow>
          if (a = JNull \<or> a = JUndefined) \<and> (b = JNull \<or> b = JUndefined) then Some True
          else if a = JNull \<or> a = JUndefined \<or> b = JNull \<or> b = JUndefined then Some False
          else (case (numberOf a, numberOf b) of
                  (Some x, Some y) \<Rightarrow> Some (x \<noteq> NaN \<and> x = y)
                | _ \<Rightarrow> None))"

definition js :: runtime where
  "js = \<lparr>toString = textOf,
          toNumber = numberOf,
          looseNe = (\<lambda>a b. map_option Not (looseEq a b)),
          coreOf = (\<lambda>v. case v of JStr s \<Rightarrow> (if s = [] then None else Some s) | _ \<Rightarrow> None)\<rparr>"

subsection \<open>Runs used as examples\<close>

text \<open>
  Runs of the replica of peer A. In \<open>pic1_resold\<close>, B wins \<open>pic1\<close> at 80 and opens it
  again at 10. In \<open>pic1_raced\<close>, the bids of B at 90 and of C at 80 both read the open
  entry before either is appended. \<open>pic1_round\<close> is one round of the auction with every
  operation ended before the next begins. In \<open>pic1_no_price\<close>, B sends an open without
  a price.
\<close>

definition pic1_resold :: "event list" where
  "pic1_resold =
     [Line ''open pic1 75'', Resume 0,
      Data ''B'' (Some (JObj [(''type'', JStr ''bid''), (''name'', JStr ''pic1''),
                              (''price'', JStr ''80'')])), Resume 0,
      Line ''close pic1 80'', Resume 0,
      Data ''B'' (Some (JObj [(''type'', JStr ''open''), (''name'', JStr ''pic1''),
                              (''price'', JStr ''10'')])), Resume 0]"

definition pic1_raced :: "event list" where
  "pic1_raced =
     [Line ''open pic1 75'', Resume 0,
      Data ''B'' (Some (JObj [(''type'', JStr ''bid''), (''name'', JStr ''pic1''),
                              (''price'', JStr ''90'')])),
      Data ''C'' (Some (JObj [(''type'', JStr ''bid''), (''name'', JStr ''pic1''),
                              (''price'', JStr ''80'')])),
      Resume 0, Resume 0]"

definition pic1_round :: "event list" where
  "pic1_round =
     [Line ''open pic1 75'', Resume 0,
      Data ''C'' (Some (JObj [(''type'', JStr ''bid''), (''name'', JStr ''pic1''),
                              (''price'', JStr ''75.5'')])), Resume 0,
      Update [''B'', ''C''],
      Data ''B'' (Some (JObj [(''type'', JStr ''bid''), (''name'', JStr ''pic1''),
                              (''price'', JStr ''80'')])), Resume 0,
      Tick 5,
      Line ''close pic1 80'', Resume 0]"

definition pic1_no_price :: "event list" where
  "pic1_no_price =
     [Data ''B'' (Some (JObj [(''type'', JStr ''open''), (''name'', JStr ''pic1'')])), Resume 0]"

text \<open>
  Two states of the replica of peer A with B and C connected: \<open>pic1_typed\<close> after A
  has typed the open of \<open>pic1\<close> and before that call goes on, and
  \<open>pic1_received\<close> after the open has ended and the bid of B at 80 has come in.
\<close>

definition pic1_typed :: replica where
  "pic1_typed = run js (boot ''A'') [Update [''B'', ''C''], Line ''open pic1 75'']"

definition pic1_received :: replica where
  "pic1_received =
     run js (boot ''A'')
       [Update [''B'', ''C''], Line ''open pic1 75'', Resume 0,
        Data ''B'' (Some (JObj [(''type'', JStr ''bid''), (''name'', JStr ''pic1''),
                                (''price'', JStr ''80'')]))]"

text \<open>And \<open>pic1_mistyped\<close>, after A has typed a bid on \<open>pic1\<close>, which nobody has opened.\<close>

definition pic1_mistyped :: replica where
  "pic1_mistyped = run js (boot ''A'') [Update [''B'', ''C''], Line ''bid pic1 80'']"

subsection \<open>What a bid entry says about the entry before it\<close>

text \<open>
  The relation between two neighbours of a core that \<^verbatim>\<open>bidAuction\<close> establishes when it
  appends to the core it has read and nothing was appended in between: a bid never
  follows a close, and the guard \<^verbatim>\<open>Number(price) <= Number(lastAction.price)\<close> was
  false for the price it was called with.
\<close>

definition bid_raises :: "runtime \<Rightarrow> entry \<Rightarrow> entry \<Rightarrow> bool" where
  "bid_raises rt prev e =
     (e_type e = ''bid'' \<longrightarrow>
        e_type prev \<noteq> ''close'' \<and>
        (\<exists>price a b. e_price e = stored price \<and> toNumber rt price = Some a \<and>
                     toNumber rt (e_price prev) = Some b \<and> \<not> js_le a b))"

text \<open>
  What holds of the core \<open>k\<close> as long as the operations on it go one at a time: every
  bid entry raises, and a call on \<open>k\<close> in flight has read the block that is still the
  last.
\<close>

definition coherent :: "runtime \<Rightarrow> string \<Rightarrow> replica \<Rightarrow> bool" where
  "coherent rt k st =
     (successively (bid_raises rt) (r_store st k) \<and>
      (\<forall>c \<in> set (inFlight k st). c_lastAction c = lastBlock (r_store st k)))"

text \<open>
  The values that only themselves are stored as, and the number that \<^verbatim>\<open>Number\<close> makes
  of the price of an entry (\<open>NaN\<close> also when it throws).
\<close>

fun plain :: "jsval \<Rightarrow> bool" where
  "plain (JStr s) = True"
| "plain (JNum r) = True"
| "plain (JBool b) = True"
| "plain v = False"

definition priceNumber :: "runtime \<Rightarrow> entry \<Rightarrow> jsnum" where
  "priceNumber rt e = (case toNumber rt (e_price e) of None \<Rightarrow> NaN | Some x \<Rightarrow> x)"

section \<open>Basic facts about the operations\<close>

lemma console_log_fields:
  "store (console_log l st) = store st"
  "now (console_log l st) = now st"
  "connections (console_log l st) = connections st"
  "written (console_log l st) = written st"
  "localPeer (console_log l st) = localPeer st"
  "console (console_log l st) = console st @ [l]"
  by (simp_all add: console_log_def)

lemma updateCore_fields:
  "store (updateCore type name owner actor price st) =
     (store st)(name := store st name @
        [\<lparr>a_type = type, a_name = name, a_owner = owner, a_actor = actor,
          a_price = price, a_time = now st\<rparr>])"
  "now (updateCore type name owner actor price st) = now st"
  "connections (updateCore type name owner actor price st) = connections st"
  "written (updateCore type name owner actor price st) = written st"
  "localPeer (updateCore type name owner actor price st) = localPeer st"
  "console (updateCore type name owner actor price st) =
     console st @ [InfoUpdated (Suc (length (store st name))) name]"
  by (simp_all add: updateCore_def Let_def console_log_fields)

lemma tail_last: "xs \<noteq> [] \<Longrightarrow> xs ! (length xs - Suc 0) = last xs"
  by (simp add: last_conv_nth)

subsection \<open>\<^verbatim>\<open>openAuction\<close>\<close>

lemma openAuction_accepts:
  "fst (openAuction peer name price st) \<longleftrightarrow>
     store st name = [] \<or>
     a_type (last (store st name)) = ''close'' \<and> a_owner (last (store st name)) = peer"
  by (auto simp: openAuction_def Let_def console_log_fields tail_last)

lemma openAuction_store:
  "store (snd (openAuction peer name price st)) =
     (if fst (openAuction peer name price st)
      then (store st)(name := store st name @
             [\<lparr>a_type = ''open'', a_name = name, a_owner = peer, a_actor = peer,
               a_price = price, a_time = now st\<rparr>])
      else store st)"
  by (auto simp: openAuction_def Let_def console_log_fields updateCore_fields tail_last)

lemma openAuction_console:
  "console (snd (openAuction peer name price st)) =
     console st @ [InfoOpened peer name price,
       if fst (openAuction peer name price st)
       then InfoUpdated (Suc (length (store st name))) name
       else ErrorReopen name peer]"
  by (auto simp: openAuction_def Let_def console_log_fields updateCore_fields)

lemma openAuction_rest:
  "now (snd (openAuction peer name price st)) = now st"
  "connections (snd (openAuction peer name price st)) = connections st"
  "written (snd (openAuction peer name price st)) = written st"
  "localPeer (snd (openAuction peer name price st)) = localPeer st"
  by (simp_all add: openAuction_def Let_def console_log_fields updateCore_fields)

subsection \<open>\<^verbatim>\<open>bidAuction\<close>\<close>

lemma bidAuction_accepts:
  "fst (bidAuction Number peer name price st) \<longleftrightarrow>
     store st name \<noteq> [] \<and> a_type (last (store st name)) \<noteq> ''close'' \<and>
     \<not> js_le (Number price) (Number (a_price (last (store st name))))"
  by (auto simp: bidAuction_def Let_def console_log_fields tail_last)

lemma bidAuction_store:
  "store (snd (bidAuction Number peer name price st)) =
     (if fst (bidAuction Number peer name price st)
      then (store st)(name := store st name @
             [\<lparr>a_type = ''bid'', a_name = name, a_owner = a_owner (last (store st name)),
               a_actor = peer, a_price = price, a_time = now st\<rparr>])
      else store st)"
  by (auto simp: bidAuction_def Let_def console_log_fields updateCore_fields tail_last)

lemma bidAuction_console:
  "console (snd (bidAuction Number peer name price st)) =
     console st @ [InfoBid peer name price,
       if store st name = [] then ErrorNotFound name
       else if a_type (last (store st name)) = ''close'' then ErrorClosed name
       else if js_le (Number price) (Number (a_price (last (store st name))))
       then ErrorLowerPrice price name peer (a_price (last (store st name)))
       else InfoUpdated (Suc (length (store st name))) name]"
  by (auto simp: bidAuction_def Let_def console_log_fields updateCore_fields tail_last)

lemma bidAuction_rest:
  "now (snd (bidAuction Number peer name price st)) = now st"
  "connections (snd (bidAuction Number peer name price st)) = connections st"
  "written (snd (bidAuction Number peer name price st)) = written st"
  "localPeer (snd (bidAuction Number peer name price st)) = localPeer st"
  by (simp_all add: bidAuction_def Let_def console_log_fields updateCore_fields)

subsection \<open>\<^verbatim>\<open>closeAuction\<close>\<close>

lemma closeAuction_accepts:
  "fst (closeAuction peer name price st) \<longleftrightarrow>
     store st name \<noteq> [] \<and> a_owner (last (store st name)) = peer \<and>
     a_price (last (store st name)) = price"
  by (auto simp: closeAuction_def Let_def console_log_fields tail_last)

lemma closeAuction_store:
  "store (snd (closeAuction peer name price st)) =
     (if fst (closeAuction peer name price st)
      then (store st)(name := store st name @
             [\<lparr>a_type = ''close'', a_name = name, a_owner = a_actor (last (store st name)),
               a_actor = peer, a_price = price, a_time = now st\<rparr>])
      else store st)"
  by (auto simp: closeAuction_def Let_def console_log_fields updateCore_fields tail_last)

lemma closeAuction_console:
  "console (snd (closeAuction peer name price st)) =
     console st @ [InfoClosed peer name price,
       if store st name = [] then ErrorNotFound name
       else if a_owner (last (store st name)) \<noteq> peer then ErrorNotOwner name peer
       else if a_price (last (store st name)) \<noteq> price
       then ErrorDifferentPrice name price peer (a_price (last (store st name)))
       else InfoUpdated (Suc (length (store st name))) name]"
  by (auto simp: closeAuction_def Let_def console_log_fields updateCore_fields tail_last)

lemma closeAuction_rest:
  "now (snd (closeAuction peer name price st)) = now st"
  "connections (snd (closeAuction peer name price st)) = connections st"
  "written (snd (closeAuction peer name price st)) = written st"
  "localPeer (snd (closeAuction peer name price st)) = localPeer st"
  by (simp_all add: closeAuction_def Let_def console_log_fields updateCore_fields)

subsection \<open>The instance \<open>decimal\<close> at the prices of the examples\<close>

lemma decimal_examples:
  "decimal ''75'' = Num 75"
  "decimal ''75.5'' = Num (151 / 2)"
  "decimal ''80'' = Num 80"
  "decimal ''80.0'' = Num 80"
  "decimal ''10'' = Num 10"
  "decimal ''90'' = Num 90"
  "decimal ''abc'' = NaN"
  by (simp_all add: decimal_def unsigned_def digit_def)

subsection \<open>The states of the sample scenario\<close>

lemma pic1_opened_store:
  "store pic1_opened = (\<lambda>name. [])(''pic1'' :=
     [\<lparr>a_type = ''open'', a_name = ''pic1'', a_owner = ''A'', a_actor = ''A'',
       a_price = ''75'', a_time = 0\<rparr>])"
  by (simp add: pic1_opened_def openAuction_store openAuction_accepts start_def)

lemma pic1_opened_now: "now pic1_opened = 0"
  by (simp add: pic1_opened_def openAuction_rest start_def)

lemma pic1_bid_75_rejected: "\<not> fst (bidAuction decimal ''B'' ''pic1'' ''75'' pic1_opened)"
  by (simp add: bidAuction_accepts pic1_opened_store decimal_examples)

lemma pic1_bid_75_store: "store pic1_bid_75 = store pic1_opened"
  using pic1_bid_75_rejected by (simp add: pic1_bid_75_def bidAuction_store)

lemma pic1_bid_75_now: "now pic1_bid_75 = 0"
  by (simp add: pic1_bid_75_def bidAuction_rest pic1_opened_now)

lemma pic1_bid_75_5_accepted:
  "fst (bidAuction decimal ''C'' ''pic1'' ''75.5'' pic1_bid_75)"
  by (simp add: bidAuction_accepts pic1_bid_75_store pic1_opened_store decimal_examples)

lemma pic1_bid_75_5_store:
  "store pic1_bid_75_5 = (\<lambda>name. [])(''pic1'' :=
     [\<lparr>a_type = ''open'', a_name = ''pic1'', a_owner = ''A'', a_actor = ''A'',
       a_price = ''75'', a_time = 0\<rparr>,
      \<lparr>a_type = ''bid'', a_name = ''pic1'', a_owner = ''A'', a_actor = ''C'',
       a_price = ''75.5'', a_time = 0\<rparr>])"
  using pic1_bid_75_5_accepted
  by (simp add: pic1_bid_75_5_def bidAuction_store pic1_bid_75_store pic1_bid_75_now
      pic1_opened_store)

lemma pic1_bid_75_5_now: "now pic1_bid_75_5 = 0"
  by (simp add: pic1_bid_75_5_def bidAuction_rest pic1_bid_75_now)

lemma pic1_bid_80_accepted:
  "fst (bidAuction decimal ''B'' ''pic1'' ''80'' pic1_bid_75_5)"
  by (simp add: bidAuction_accepts pic1_bid_75_5_store decimal_examples)

lemma pic1_bid_80_store:
  "store pic1_bid_80 = (\<lambda>name. [])(''pic1'' :=
     [\<lparr>a_type = ''open'', a_name = ''pic1'', a_owner = ''A'', a_actor = ''A'',
       a_price = ''75'', a_time = 0\<rparr>,
      \<lparr>a_type = ''bid'', a_name = ''pic1'', a_owner = ''A'', a_actor = ''C'',
       a_price = ''75.5'', a_time = 0\<rparr>,
      \<lparr>a_type = ''bid'', a_name = ''pic1'', a_owner = ''A'', a_actor = ''B'',
       a_price = ''80'', a_time = 0\<rparr>])"
  using pic1_bid_80_accepted
  by (simp add: pic1_bid_80_def bidAuction_store pic1_bid_75_5_store pic1_bid_75_5_now)

lemma pic1_bid_80_now: "now pic1_bid_80 = 0"
  by (simp add: pic1_bid_80_def bidAuction_rest pic1_bid_75_5_now)

lemma pic1_close_accepted: "fst (closeAuction ''A'' ''pic1'' ''80'' pic1_bid_80)"
  by (simp add: closeAuction_accepts pic1_bid_80_store)

lemma pic1_closed_store:
  "store pic1_closed = (\<lambda>name. [])(''pic1'' :=
     [\<lparr>a_type = ''open'', a_name = ''pic1'', a_owner = ''A'', a_actor = ''A'',
       a_price = ''75'', a_time = 0\<rparr>,
      \<lparr>a_type = ''bid'', a_name = ''pic1'', a_owner = ''A'', a_actor = ''C'',
       a_price = ''75.5'', a_time = 0\<rparr>,
      \<lparr>a_type = ''bid'', a_name = ''pic1'', a_owner = ''A'', a_actor = ''B'',
       a_price = ''80'', a_time = 0\<rparr>,
      \<lparr>a_type = ''close'', a_name = ''pic1'', a_owner = ''B'', a_actor = ''A'',
       a_price = ''80'', a_time = 0\<rparr>])"
  using pic1_close_accepted
  by (simp add: pic1_closed_def closeAuction_store pic1_bid_80_store pic1_bid_80_now)

lemma pic1_closed_now: "now pic1_closed = 0"
  by (simp add: pic1_closed_def closeAuction_rest pic1_bid_80_now)

lemma pic1_bid_75_console:
  "last (console pic1_bid_75) = ErrorLowerPrice ''75'' ''pic1'' ''B'' ''75''"
  by (simp add: pic1_bid_75_def bidAuction_console pic1_opened_store decimal_examples)

section \<open>Basic facts about the replica\<close>

subsection \<open>The parts of a call\<close>

lemma say_fields:
  "r_store (say l st) = r_store st"
  "r_now (say l st) = r_now st"
  "r_connections (say l st) = r_connections st"
  "r_written (say l st) = r_written st"
  "r_localPeer (say l st) = r_localPeer st"
  "r_pending (say l st) = r_pending st"
  "r_console (say l st) = r_console st @ [l]"
  by (simp_all add: say_def)

lemma inFlight_say: "inFlight k (say l st) = inFlight k st"
  by (simp add: inFlight_def say_fields)

lemma updateCore_js_fields:
  "r_store (updateCore_js type c owner st) =
     (r_store st)(c_core c := r_store st (c_core c) @
        [\<lparr>e_type = type, e_name = stored (c_name c), e_owner = owner, e_actor = c_peer c,
          e_price = stored (c_price c), e_time = r_now st\<rparr>])"
  "r_now (updateCore_js type c owner st) = r_now st"
  "r_connections (updateCore_js type c owner st) = r_connections st"
  "r_written (updateCore_js type c owner st) = r_written st"
  "r_localPeer (updateCore_js type c owner st) = r_localPeer st"
  "r_pending (updateCore_js type c owner st) = r_pending st"
  by (simp_all add: updateCore_js_def Let_def say_fields)

lemma called_fields:
  "r_store (called rt type message peer name price st) = r_store st"
  "r_now (called rt type message peer name price st) = r_now st"
  "r_connections (called rt type message peer name price st) = r_connections st"
  "r_written (called rt type message peer name price st) = r_written st"
  "r_localPeer (called rt type message peer name price st) = r_localPeer st"
  by (simp_all add: called_def Let_def say_fields split: option.splits)

lemma called_pending:
  "r_pending (called rt type message peer name price st) = r_pending st \<or>
   (\<exists>c. r_pending (called rt type message peer name price st) = r_pending st @ [c] \<and>
        c_type c = type \<and> c_msg c = message \<and> c_peer c = peer \<and> c_name c = name \<and>
        c_price c = price \<and> coreOf rt name = Some (c_core c) \<and>
        c_lastAction c = lastBlock (r_store st (c_core c)))"
  by (simp add: called_def Let_def say_fields split: option.splits)

lemma openAuction_js_returns:
  "fst (openAuction_js rt c st) =
     Returned (case c_lastAction c of
                 None \<Rightarrow> True
               | Some lastAction \<Rightarrow> e_type lastAction = ''close'' \<and> e_owner lastAction = c_peer c)"
  by (simp add: openAuction_js_def split: option.splits)

lemma openAuction_js_store:
  "c_type c = ''open'' \<Longrightarrow>
   r_store (snd (openAuction_js rt c st)) =
     (if fst (openAuction_js rt c st) = Returned True
      then (r_store st)(c_core c := r_store st (c_core c) @ [appended c (r_now st)])
      else r_store st)"
  by (simp add: openAuction_js_def appended_def say_fields updateCore_js_fields
      split: option.splits)

lemma bidAuction_js_returns:
  "fst (bidAuction_js rt c st) = Returned True \<longleftrightarrow>
     (\<exists>lastAction a b. c_lastAction c = Some lastAction \<and> e_type lastAction \<noteq> ''close'' \<and>
        toNumber rt (c_price c) = Some a \<and> toNumber rt (e_price lastAction) = Some b \<and>
        \<not> js_le a b)"
  by (simp add: bidAuction_js_def split: option.splits)

lemma bidAuction_js_store:
  "c_type c = ''bid'' \<Longrightarrow>
   r_store (snd (bidAuction_js rt c st)) =
     (if fst (bidAuction_js rt c st) = Returned True
      then (r_store st)(c_core c := r_store st (c_core c) @ [appended c (r_now st)])
      else r_store st)"
  by (simp add: bidAuction_js_def appended_def say_fields updateCore_js_fields
      split: option.splits)

lemma closeAuction_js_returns:
  "fst (closeAuction_js rt c st) = Returned True \<longleftrightarrow>
     (\<exists>lastAction. c_lastAction c = Some lastAction \<and> e_owner lastAction = c_peer c \<and>
        looseNe rt (e_price lastAction) (c_price c) = Some False)"
  by (simp add: closeAuction_js_def split: option.splits)

lemma closeAuction_js_store:
  "c_type c \<noteq> ''open'' \<Longrightarrow> c_type c \<noteq> ''bid'' \<Longrightarrow>
   r_store (snd (closeAuction_js rt c st)) =
     (if fst (closeAuction_js rt c st) = Returned True
      then (r_store st)(c_core c := r_store st (c_core c) @ [appended c (r_now st)])
      else r_store st)"
  by (simp add: closeAuction_js_def appended_def say_fields updateCore_js_fields
      split: option.splits)

lemma settle_store:
  "r_store (snd (settle rt c st)) =
     (if fst (settle rt c st) = Returned True
      then (r_store st)(c_core c := r_store st (c_core c) @ [appended c (r_now st)])
      else r_store st)"
  by (simp add: settle_def openAuction_js_store bidAuction_js_store closeAuction_js_store)

lemma openAuction_js_rest:
  "r_now (snd (openAuction_js rt c st)) = r_now st"
  "r_connections (snd (openAuction_js rt c st)) = r_connections st"
  "r_written (snd (openAuction_js rt c st)) = r_written st"
  "r_localPeer (snd (openAuction_js rt c st)) = r_localPeer st"
  "r_pending (snd (openAuction_js rt c st)) = r_pending st"
  by (simp_all add: openAuction_js_def say_fields updateCore_js_fields split: option.splits)

lemma bidAuction_js_rest:
  "r_now (snd (bidAuction_js rt c st)) = r_now st"
  "r_connections (snd (bidAuction_js rt c st)) = r_connections st"
  "r_written (snd (bidAuction_js rt c st)) = r_written st"
  "r_localPeer (snd (bidAuction_js rt c st)) = r_localPeer st"
  "r_pending (snd (bidAuction_js rt c st)) = r_pending st"
  by (simp_all add: bidAuction_js_def say_fields updateCore_js_fields split: option.splits)

lemma closeAuction_js_rest:
  "r_now (snd (closeAuction_js rt c st)) = r_now st"
  "r_connections (snd (closeAuction_js rt c st)) = r_connections st"
  "r_written (snd (closeAuction_js rt c st)) = r_written st"
  "r_localPeer (snd (closeAuction_js rt c st)) = r_localPeer st"
  "r_pending (snd (closeAuction_js rt c st)) = r_pending st"
  by (simp_all add: closeAuction_js_def say_fields updateCore_js_fields split: option.splits)

lemma settle_rest:
  "r_now (snd (settle rt c st)) = r_now st"
  "r_connections (snd (settle rt c st)) = r_connections st"
  "r_written (snd (settle rt c st)) = r_written st"
  "r_localPeer (snd (settle rt c st)) = r_localPeer st"
  "r_pending (snd (settle rt c st)) = r_pending st"
  by (simp_all add: settle_def openAuction_js_rest bidAuction_js_rest closeAuction_js_rest)

subsection \<open>One operation at a time keeps every bid raising\<close>

text \<open>
  A call on the core \<open>k\<close> that ends when no other call on \<open>k\<close> is in flight has
  read the block that is still the last, so a bid that it appends raises that block.
\<close>

lemma lastBlock_last: "lastBlock core = (if core = [] then None else Some (last core))"
  by (simp add: lastBlock_def last_conv_nth)

lemma bid_raises_other: "e_type e \<noteq> ''bid'' \<Longrightarrow> bid_raises rt prev e"
  by (simp add: bid_raises_def)

lemma successively_snoc:
  "successively P (xs @ [x]) \<longleftrightarrow> successively P xs \<and> (xs = [] \<or> P (last xs) x)"
  by (simp add: successively_append_iff)

lemma settle_raises:
  assumes "fst (settle rt c st) = Returned True"
    and "c_lastAction c = lastBlock core"
    and "core \<noteq> []"
  shows "bid_raises rt (last core) (appended c t)"
proof (cases "c_type c = ''bid''")
  case True
  with assms(1) have "fst (bidAuction_js rt c st) = Returned True"
    by (simp add: settle_def)
  then obtain lastAction a b where
    "c_lastAction c = Some lastAction" "e_type lastAction \<noteq> ''close''"
    "toNumber rt (c_price c) = Some a" "toNumber rt (e_price lastAction) = Some b"
    "\<not> js_le a b"
    by (auto simp: bidAuction_js_returns)
  moreover from this assms(2,3) have "lastAction = last core"
    by (simp add: lastBlock_last)
  ultimately show ?thesis
    by (auto simp: bid_raises_def appended_def)
next
  case False
  then show ?thesis by (simp add: bid_raises_other appended_def)
qed

lemma inFlight_append:
  "r_pending st' = r_pending st @ cs \<Longrightarrow>
   inFlight k st' = inFlight k st @ filter (\<lambda>c. c_core c = k) cs"
  by (simp add: inFlight_def)

lemma called_coherent:
  assumes "coherent rt k st"
  shows "coherent rt k (called rt type message peer name price st)"
  using assms called_pending [of rt type message peer name price st]
  by (auto simp: coherent_def called_fields inFlight_def)

lemma say_coherent: "coherent rt k (say l st) = coherent rt k st"
  by (simp add: coherent_def say_fields inFlight_say)

lemma processAction_coherent:
  assumes "coherent rt k st"
  shows "coherent rt k (processAction rt action st)"
  using assms by (simp add: processAction_def Let_def called_coherent say_coherent)

lemma processMessage_coherent:
  assumes "coherent rt k st"
  shows "coherent rt k (processMessage rt peer rawMessage st)"
  using assms
  by (cases rawMessage) (simp_all add: processMessage_def Let_def called_coherent say_coherent)

lemma filter_one_removed:
  assumes "length (filter P xs) \<le> 1" and "i < length xs" and "P (xs ! i)"
  shows "filter P (take i xs @ drop (Suc i) xs) = []"
proof -
  have "xs = take i xs @ xs ! i # drop (Suc i) xs"
    using assms(2) by (simp add: id_take_nth_drop)
  then have "filter P xs = filter P (take i xs) @ xs ! i # filter P (drop (Suc i) xs)"
    using assms(3) by (metis filter.simps(2) filter_append)
  with assms(1) show ?thesis by simp
qed

lemma filter_other_removed:
  assumes "i < length xs" and "\<not> P (xs ! i)"
  shows "filter P (take i xs @ drop (Suc i) xs) = filter P xs"
proof -
  have "xs = take i xs @ xs ! i # drop (Suc i) xs"
    using assms(1) by (simp add: id_take_nth_drop)
  then have "filter P xs = filter P (take i xs) @ filter P (drop (Suc i) xs)"
    using assms(2) by (metis filter.simps(2) filter_append)
  then show ?thesis by simp
qed

lemma broadcast_fields:
  "r_store (broadcast m st) = r_store st"
  "r_now (broadcast m st) = r_now st"
  "r_connections (broadcast m st) = r_connections st"
  "r_localPeer (broadcast m st) = r_localPeer st"
  "r_console (broadcast m st) = r_console st"
  "r_pending (broadcast m st) = r_pending st"
  "r_written (broadcast m st) = r_written st @ map (\<lambda>peer. (peer, m)) (r_connections st)"
  by (simp_all add: broadcast_def)

lemma resume_store:
  "r_store (resume rt i st) =
     (if i < length (r_pending st) \<and>
         fst (settle rt (r_pending st ! i)
                (st\<lparr>r_pending := take i (r_pending st) @ drop (Suc i) (r_pending st)\<rparr>)) =
           Returned True
      then (r_store st)(c_core (r_pending st ! i) :=
             r_store st (c_core (r_pending st ! i)) @ [appended (r_pending st ! i) (r_now st)])
      else r_store st)"
  by (simp add: resume_def Let_def settle_store broadcast_fields split: option.splits)

lemma resume_pending:
  "r_pending (resume rt i st) =
     (if i < length (r_pending st)
      then take i (r_pending st) @ drop (Suc i) (r_pending st) else r_pending st)"
  by (simp add: resume_def Let_def settle_rest broadcast_fields split: option.splits)

lemma resume_coherent:
  assumes "coherent rt k st" and "length (inFlight k st) \<le> 1"
  shows "coherent rt k (resume rt i st)"
proof (cases "i < length (r_pending st)")
  case False
  with assms(1) show ?thesis by (simp add: resume_def)
next
  case True
  let ?c = "r_pending st ! i"
  let ?rest = "take i (r_pending st) @ drop (Suc i) (r_pending st)"
  let ?ended = "settle rt ?c (st\<lparr>r_pending := ?rest\<rparr>)"
  show ?thesis
  proof (cases "c_core ?c = k")
    case other: False
    then have "filter (\<lambda>c. c_core c = k) ?rest = filter (\<lambda>c. c_core c = k) (r_pending st)"
      using True by (intro filter_other_removed) simp_all
    then have "inFlight k (resume rt i st) = inFlight k st"
      using True by (simp only: inFlight_def resume_pending if_True)
    moreover have "r_store (resume rt i st) k = r_store st k"
      using other by (simp add: resume_store)
    ultimately show ?thesis using assms(1) by (simp add: coherent_def)
  next
    case same: True
    have "filter (\<lambda>c. c_core c = k) ?rest = []"
      using True same assms(2) by (intro filter_one_removed) (simp_all add: inFlight_def)
    then have none: "inFlight k (resume rt i st) = []"
      using True by (simp only: inFlight_def resume_pending if_True)
    have "?c \<in> set (inFlight k st)"
      using True same by (simp add: inFlight_def)
    with assms(1) have read: "c_lastAction ?c = lastBlock (r_store st k)"
      by (simp add: coherent_def)
    have "successively (bid_raises rt) (r_store (resume rt i st) k)"
    proof (cases "fst ?ended = Returned True")
      case False
      with assms(1) show ?thesis by (simp add: resume_store coherent_def)
    next
      case accepted: True
      then have "r_store st k \<noteq> [] \<Longrightarrow>
                 bid_raises rt (last (r_store st k)) (appended ?c (r_now st))"
        using read by (rule settle_raises)
      with assms(1) accepted True same show ?thesis
        by (auto simp: resume_store coherent_def successively_snoc)
    qed
    with none show ?thesis by (simp add: coherent_def)
  qed
qed

lemma step_coherent:
  assumes "coherent rt k st" and "length (inFlight k st) \<le> 1"
  shows "coherent rt k (step rt st ev)"
proof (cases ev)
  case (Update peers)
  with assms(1) show ?thesis by (simp add: coherent_def inFlight_def)
next
  case (Tick t)
  with assms(1) show ?thesis by (simp add: coherent_def inFlight_def)
qed (use assms in \<open>simp_all add: processAction_coherent processMessage_coherent resume_coherent\<close>)

lemma run_coherent:
  assumes "coherent rt k st" and "oneAtATime rt k st evs"
  shows "coherent rt k (run rt st evs)"
  using assms unfolding run_def
  by (induction evs arbitrary: st) (simp_all add: step_coherent)

lemma boot_coherent: "coherent rt k (boot p)"
  by (simp add: coherent_def boot_def inFlight_def)

lemma successively_take_drop:
  assumes "successively P xs"
  shows "successively P (take n (drop i xs))"
proof -
  have "successively P (take i xs @ drop i xs)" using assms by simp
  then have "successively P (drop i xs)" by (simp only: successively_append_iff)
  then have "successively P (take n (drop i xs) @ drop n (drop i xs))"
    by (simp only: append_take_drop_id)
  then show ?thesis by (simp only: successively_append_iff)
qed

lemma js_less_trans: "js_less a b \<Longrightarrow> js_less b c \<Longrightarrow> js_less a c"
  by (cases a; cases b; cases c) simp_all

lemma not_js_le: "a \<noteq> NaN \<Longrightarrow> b \<noteq> NaN \<Longrightarrow> \<not> js_le a b \<Longrightarrow> js_less b a"
  by (cases a; cases b) simp_all

lemma stored_plain: "stored price = v \<Longrightarrow> plain v \<Longrightarrow> price = v"
  by (cases price) auto

lemma bid_raises_less:
  assumes "bid_raises rt prev e" and "e_type e = ''bid''"
    and "plain (e_price e)" and "priceNumber rt e \<noteq> NaN" and "priceNumber rt prev \<noteq> NaN"
  shows "js_less (priceNumber rt prev) (priceNumber rt e)"
proof -
  from assms(1,2) obtain price a b where
    "e_price e = stored price" "toNumber rt price = Some a"
    "toNumber rt (e_price prev) = Some b" "\<not> js_le a b"
    by (auto simp: bid_raises_def)
  moreover from this assms(3) have "price = e_price e"
    by (simp add: stored_plain)
  ultimately have "priceNumber rt e = a" "priceNumber rt prev = b" "\<not> js_le a b"
    by (simp_all add: priceNumber_def)
  with assms(4,5) show ?thesis by (simp add: not_js_le)
qed

lemma bids_successively_less:
  assumes "successively (bid_raises rt) seg"
    and "\<forall>e \<in> set (tl seg). e_type e = ''bid''"
    and "\<forall>e \<in> set seg. plain (e_price e) \<and> priceNumber rt e \<noteq> NaN"
  shows "successively js_less (map (priceNumber rt) seg)"
  using assms
proof (induction seg rule: induct_list012)
  case (3 x y zs)
  then show ?case by (simp add: bid_raises_less)
qed simp_all

lemma pic1_round_store:
  "r_store (run js (boot ''A'') pic1_round) ''pic1'' =
     [\<lparr>e_type = ''open'', e_name = JStr ''pic1'', e_owner = ''A'', e_actor = ''A'',
       e_price = JStr ''75'', e_time = 0\<rparr>,
      \<lparr>e_type = ''bid'', e_name = JStr ''pic1'', e_owner = ''A'', e_actor = ''C'',
       e_price = JStr ''75.5'', e_time = 0\<rparr>,
      \<lparr>e_type = ''bid'', e_name = JStr ''pic1'', e_owner = ''A'', e_actor = ''B'',
       e_price = JStr ''80'', e_time = 0\<rparr>,
      \<lparr>e_type = ''close'', e_name = JStr ''pic1'', e_owner = ''B'', e_actor = ''A'',
       e_price = JStr ''80'', e_time = 5\<rparr>]"
  by code_simp

lemma pic1_round_oneAtATime: "oneAtATime js ''pic1'' (boot ''A'') pic1_round"
  by code_simp

lemma pic1_resold_store:
  "r_store (run js (boot ''A'') pic1_resold) ''pic1'' =
     [\<lparr>e_type = ''open'', e_name = JStr ''pic1'', e_owner = ''A'', e_actor = ''A'',
       e_price = JStr ''75'', e_time = 0\<rparr>,
      \<lparr>e_type = ''bid'', e_name = JStr ''pic1'', e_owner = ''A'', e_actor = ''B'',
       e_price = JStr ''80'', e_time = 0\<rparr>,
      \<lparr>e_type = ''close'', e_name = JStr ''pic1'', e_owner = ''B'', e_actor = ''A'',
       e_price = JStr ''80'', e_time = 0\<rparr>,
      \<lparr>e_type = ''open'', e_name = JStr ''pic1'', e_owner = ''B'', e_actor = ''B'',
       e_price = JStr ''10'', e_time = 0\<rparr>]"
  by code_simp

lemma pic1_resold_oneAtATime: "oneAtATime js ''pic1'' (boot ''A'') pic1_resold"
  by code_simp

lemma pic1_raced_store:
  "r_store (run js (boot ''A'') pic1_raced) ''pic1'' =
     [\<lparr>e_type = ''open'', e_name = JStr ''pic1'', e_owner = ''A'', e_actor = ''A'',
       e_price = JStr ''75'', e_time = 0\<rparr>,
      \<lparr>e_type = ''bid'', e_name = JStr ''pic1'', e_owner = ''A'', e_actor = ''B'',
       e_price = JStr ''90'', e_time = 0\<rparr>,
      \<lparr>e_type = ''bid'', e_name = JStr ''pic1'', e_owner = ''A'', e_actor = ''C'',
       e_price = JStr ''80'', e_time = 0\<rparr>]"
  by code_simp

lemma pic1_no_price_store:
  "r_store (run js (boot ''A'') pic1_no_price) ''pic1'' =
     [\<lparr>e_type = ''open'', e_name = JStr ''pic1'', e_owner = ''B'', e_actor = ''B'',
       e_price = JUndefined, e_time = 0\<rparr>]"
  by code_simp

lemma js_strings:
  "toString js (JStr s) = Some s"
  "toNumber js (JStr s) = Some (decimal s)"
  "looseNe js (JStr s) (JStr t) = Some (s \<noteq> t)"
  "s \<noteq> [] \<Longrightarrow> coreOf js (JStr s) = Some s"
  by (simp_all add: js_def textOf_def numberOf_def looseEq_def)

subsection \<open>On strings, a call that goes on at once is the operation of the first part\<close>

text \<open>
  For a runtime that treats strings as the JavaScript runtime does, and a name for which
  the library gives the core of that name, a call made on a replica with nothing in flight
  and resumed at once ends in the state that \<open>openAuction\<close>, \<open>bidAuction\<close> or
  \<open>closeAuction\<close> gives.
\<close>

lemma lastBlock_entryOf:
  "lastBlock (map entryOf core) =
     (if core = [] then None else Some (entryOf (core ! (length core - Suc 0))))"
  by (simp add: lastBlock_def)

lemma called_strings:
  assumes "onStrings rt N" and "coreOf rt (JStr name) = Some name"
  shows "called rt type message peer (JStr name) (JStr price) (replicaOf w) =
           (say (infoLine type peer name price) (replicaOf w))
             \<lparr>r_pending := [\<lparr>c_type = type, c_peer = peer, c_name = JStr name,
                              c_price = JStr price, c_nameText = name, c_priceText = price,
                              c_core = name,
                              c_lastAction = lastBlock (map entryOf (store w name)),
                              c_msg = message\<rparr>]\<rparr>"
  using assms by (simp add: called_def onStrings_def Let_def say_fields replicaOf_def)

lemma say_replicaOf: "say l (replicaOf w) = replicaOf (console_log l w)"
  by (simp add: say_def replicaOf_def console_log_def)

lemma updateCore_replicaOf:
  assumes "c_name c = JStr name" "c_price c = JStr price" "c_core c = name"
    "c_nameText c = name" "c_peer c = actor"
  shows "updateCore_js type c owner (replicaOf w) = replicaOf (updateCore type name owner actor price w)"
  using assms
  by (auto simp: updateCore_js_def updateCore_def Let_def say_def console_log_def replicaOf_def
      entryOf_def fun_eq_iff)

lemma replicaOf_pending: "(replicaOf w)\<lparr>r_pending := []\<rparr> = replicaOf w"
  by (simp add: replicaOf_def)

lemma resume_single:
  "resume rt 0 (st\<lparr>r_pending := [c]\<rparr>) =
     (case c_msg c of
        None \<Rightarrow> snd (settle rt c (st\<lparr>r_pending := []\<rparr>))
      | Some m \<Rightarrow>
          if fst (settle rt c (st\<lparr>r_pending := []\<rparr>)) = Returned True
          then broadcast m (snd (settle rt c (st\<lparr>r_pending := []\<rparr>)))
          else snd (settle rt c (st\<lparr>r_pending := []\<rparr>)))"
  by (simp add: resume_def Let_def)

lemma resume_called_strings:
  assumes "onStrings rt N" and "coreOf rt (JStr name) = Some name"
  shows "resume rt 0 (called rt type None peer (JStr name) (JStr price) (replicaOf w)) =
           snd (settle rt
                 \<lparr>c_type = type, c_peer = peer, c_name = JStr name, c_price = JStr price,
                   c_nameText = name, c_priceText = price, c_core = name,
                   c_lastAction = lastBlock (map entryOf (store w name)), c_msg = None\<rparr>
                 (replicaOf (console_log (infoLine type peer name price) w)))"
proof -
  have "called rt type None peer (JStr name) (JStr price) (replicaOf w) =
          (replicaOf (console_log (infoLine type peer name price) w))
            \<lparr>r_pending := [\<lparr>c_type = type, c_peer = peer, c_name = JStr name,
                             c_price = JStr price, c_nameText = name, c_priceText = price,
                             c_core = name,
                             c_lastAction = lastBlock (map entryOf (store w name)),
                             c_msg = None\<rparr>]\<rparr>"
    by (simp only: called_strings [OF assms] say_replicaOf)
  then show ?thesis
    by (simp only: resume_single replicaOf_pending) simp
qed

lemma openAuction_agrees:
  assumes "onStrings rt N" and "coreOf rt (JStr name) = Some name"
  shows "resume rt 0 (called rt ''open'' None peer (JStr name) (JStr price) (replicaOf w)) =
           replicaOf (snd (openAuction peer name price w))"
  by (simp add: resume_called_strings [OF assms] settle_def openAuction_js_def openAuction_def
      Let_def lastBlock_entryOf console_log_fields infoLine_def updateCore_replicaOf
      say_replicaOf entryOf_def)

lemma bidAuction_agrees:
  assumes "onStrings rt N" and "coreOf rt (JStr name) = Some name"
  shows "resume rt 0 (called rt ''bid'' None peer (JStr name) (JStr price) (replicaOf w)) =
           replicaOf (snd (bidAuction N peer name price w))"
  using assms(1)
  by (simp add: resume_called_strings [OF assms] settle_def bidAuction_js_def bidAuction_def
      Let_def lastBlock_entryOf console_log_fields infoLine_def updateCore_replicaOf
      say_replicaOf entryOf_def onStrings_def)

lemma closeAuction_agrees:
  assumes "onStrings rt N" and "coreOf rt (JStr name) = Some name"
  shows "resume rt 0 (called rt ''close'' None peer (JStr name) (JStr price) (replicaOf w)) =
           replicaOf (snd (closeAuction peer name price w))"
  using assms(1)
  by (simp add: resume_called_strings [OF assms] settle_def closeAuction_js_def closeAuction_def
      Let_def lastBlock_entryOf console_log_fields infoLine_def updateCore_replicaOf
      say_replicaOf entryOf_def onStrings_def)

subsection \<open>The terminal, the peers and the calls they make\<close>

lemma processAction_fields:
  "r_store (processAction rt action st) = r_store st"
  "r_written (processAction rt action st) = r_written st"
  "r_connections (processAction rt action st) = r_connections st"
  by (simp_all add: processAction_def Let_def called_fields say_fields)

lemma processMessage_fields:
  "r_store (processMessage rt peer rawMessage st) = r_store st"
  "r_written (processMessage rt peer rawMessage st) = r_written st"
  "r_connections (processMessage rt peer rawMessage st) = r_connections st"
  by (cases rawMessage; simp add: processMessage_def Let_def called_fields say_fields)+

lemma processAction_pending:
  "r_pending (processAction rt action st) = r_pending st \<or>
   (\<exists>c. r_pending (processAction rt action st) = r_pending st @ [c] \<and>
        c_type c = split [] (trim action) ! 0 \<and>
        (c_type c = ''open'' \<or> c_type c = ''bid'' \<or> c_type c = ''close'') \<and>
        c_peer c = r_localPeer st \<and>
        c_name c = JStr (split [] (trim action) ! 1) \<and>
        c_price c = JStr (split [] (trim action) ! 2) \<and>
        c_msg c = Some \<lparr>m_type = split [] (trim action) ! 0,
                          m_name = split [] (trim action) ! 1,
                          m_price = split [] (trim action) ! 2\<rparr>)"
proof -
  let ?arr = "split [] (trim action)"
  let ?m = "\<lparr>m_type = ?arr ! 0, m_name = ?arr ! 1, m_price = ?arr ! 2\<rparr>"
  have "processAction rt action st = say (ErrorInvalidActionUsage action) st \<or>
        processAction rt action st = say (ErrorInvalidAction action) st \<or>
        (?arr ! 0 = ''open'' \<or> ?arr ! 0 = ''bid'' \<or> ?arr ! 0 = ''close'') \<and>
        processAction rt action st =
          called rt (?arr ! 0) (Some ?m) (r_localPeer st) (JStr (?arr ! 1)) (JStr (?arr ! 2)) st"
    by (simp add: processAction_def Let_def)
  then show ?thesis
    using called_pending [of rt "?arr ! 0" "Some ?m" "r_localPeer st" "JStr (?arr ! 1)"
        "JStr (?arr ! 2)" st]
    by (auto simp: say_fields)
qed

lemma called_not_local:
  "\<exists>cs. r_pending (called rt type None peer name price st) = r_pending st @ cs \<and>
        (\<forall>c \<in> set cs. c_msg c = None \<and> c_peer c = peer)"
  using called_pending [of rt type None peer name price st] by auto

lemma processMessage_pending:
  "\<exists>cs. r_pending (processMessage rt peer rawMessage st) = r_pending st @ cs \<and>
        (\<forall>c \<in> set cs. c_msg c = None \<and> c_peer c = peer)"
proof (cases rawMessage)
  case None
  then show ?thesis by (simp add: processMessage_def say_fields)
next
  case (Some m)
  have "processMessage rt peer rawMessage st = st \<or>
        (\<exists>type. processMessage rt peer rawMessage st =
                  called rt type None peer (member m ''name'') (member m ''price'') st)"
    using Some by (auto simp: processMessage_def Let_def)
  then show ?thesis using called_not_local by auto
qed

lemma resume_at:
  assumes "r_pending st = before @ c # after"
  shows "resume rt (length before) st =
           (case c_msg c of
              None \<Rightarrow> snd (settle rt c (st\<lparr>r_pending := before @ after\<rparr>))
            | Some m \<Rightarrow>
                if fst (settle rt c (st\<lparr>r_pending := before @ after\<rparr>)) = Returned True
                then broadcast m (snd (settle rt c (st\<lparr>r_pending := before @ after\<rparr>)))
                else snd (settle rt c (st\<lparr>r_pending := before @ after\<rparr>)))"
  using assms by (simp add: resume_def Let_def)

lemma pic1_typed_pending:
  "r_pending pic1_typed =
     [\<lparr>c_type = ''open'', c_peer = ''A'', c_name = JStr ''pic1'', c_price = JStr ''75'',
       c_nameText = ''pic1'', c_priceText = ''75'', c_core = ''pic1'', c_lastAction = None,
       c_msg = Some \<lparr>m_type = ''open'', m_name = ''pic1'', m_price = ''75''\<rparr>\<rparr>]"
  by code_simp

lemma pic1_typed_resumed:
  "r_written pic1_typed = []"
  "r_connections pic1_typed = [''B'', ''C'']"
  "r_store pic1_typed ''pic1'' = []"
  "r_written (resume js 0 pic1_typed) =
     [(''B'', \<lparr>m_type = ''open'', m_name = ''pic1'', m_price = ''75''\<rparr>),
      (''C'', \<lparr>m_type = ''open'', m_name = ''pic1'', m_price = ''75''\<rparr>)]"
  "r_store (resume js 0 pic1_typed) ''pic1'' =
     [\<lparr>e_type = ''open'', e_name = JStr ''pic1'', e_owner = ''A'', e_actor = ''A'',
       e_price = JStr ''75'', e_time = 0\<rparr>]"
  by code_simp+

lemma pic1_received_pending:
  "r_pending pic1_received =
     [\<lparr>c_type = ''bid'', c_peer = ''B'', c_name = JStr ''pic1'', c_price = JStr ''80'',
       c_nameText = ''pic1'', c_priceText = ''80'', c_core = ''pic1'',
       c_lastAction = Some \<lparr>e_type = ''open'', e_name = JStr ''pic1'', e_owner = ''A'',
                              e_actor = ''A'', e_price = JStr ''75'', e_time = 0\<rparr>,
       c_msg = None\<rparr>]"
  by code_simp

lemma pic1_received_resumed:
  "r_written (resume js 0 pic1_received) = r_written pic1_received"
  "r_store (resume js 0 pic1_received) ''pic1'' =
     [\<lparr>e_type = ''open'', e_name = JStr ''pic1'', e_owner = ''A'', e_actor = ''A'',
       e_price = JStr ''75'', e_time = 0\<rparr>,
      \<lparr>e_type = ''bid'', e_name = JStr ''pic1'', e_owner = ''A'', e_actor = ''B'',
       e_price = JStr ''80'', e_time = 0\<rparr>]"
  by code_simp+

lemma pic1_mistyped_pending:
  "r_pending pic1_mistyped =
     [\<lparr>c_type = ''bid'', c_peer = ''A'', c_name = JStr ''pic1'', c_price = JStr ''80'',
       c_nameText = ''pic1'', c_priceText = ''80'', c_core = ''pic1'', c_lastAction = None,
       c_msg = Some \<lparr>m_type = ''bid'', m_name = ''pic1'', m_price = ''80''\<rparr>\<rparr>]"
  by code_simp

lemma pic1_mistyped_resumed:
  "r_written (resume js 0 pic1_mistyped) = []"
  "r_store (resume js 0 pic1_mistyped) ''pic1'' = []"
  "r_connections pic1_mistyped = [''B'', ''C'']"
  by code_simp+

lemma pic1_settled:
  "fst (settle js (r_pending pic1_typed ! 0) (pic1_typed\<lparr>r_pending := []\<rparr>)) = Returned True"
  "fst (settle js (r_pending pic1_mistyped ! 0) (pic1_mistyped\<lparr>r_pending := []\<rparr>)) =
     Returned False"
  "fst (settle js (r_pending pic1_received ! 0) (pic1_received\<lparr>r_pending := []\<rparr>)) =
     Returned True"
  by code_simp+

lemma pic1_calls:
  "length (r_pending pic1_typed) = 1"
  "c_msg (r_pending pic1_typed ! 0) = Some \<lparr>m_type = ''open'', m_name = ''pic1'', m_price = ''75''\<rparr>"
  "length (r_pending pic1_mistyped) = 1"
  "c_msg (r_pending pic1_mistyped ! 0) =
     Some \<lparr>m_type = ''bid'', m_name = ''pic1'', m_price = ''80''\<rparr>"
  "length (r_pending pic1_received) = 1"
  "c_msg (r_pending pic1_received ! 0) = None"
  by (simp_all add: pic1_typed_pending pic1_mistyped_pending pic1_received_pending)

lemma boot_store: "r_store (boot p) k = []"
  by (simp add: boot_def)

subsection \<open>Rejected operations and payloads that do not parse\<close>

text \<open>
  An open, a bid or a close that returns false leaves every core of the store as it was
  (in the first part, on strings, and for a call of any values in the second part, also
  when it throws), and an inbound payload on which \<^verbatim>\<open>JSON.parse\<close> throws leaves
  every core as it was and makes no call.
\<close>

lemma rejected_or_undecoded_leaves_store:
  "(\<not> fst (openAuction peer name price w) \<longrightarrow>
      store (snd (openAuction peer name price w)) = store w) \<and>
   (\<not> fst (bidAuction Number peer name price w) \<longrightarrow>
      store (snd (bidAuction Number peer name price w)) = store w) \<and>
   (\<not> fst (closeAuction peer name price w) \<longrightarrow>
      store (snd (closeAuction peer name price w)) = store w) \<and>
   (fst (settle rt c st) \<noteq> Returned True \<longrightarrow> r_store (snd (settle rt c st)) = r_store st) \<and>
   r_store (processMessage rt peer None st) = r_store st \<and>
   r_pending (processMessage rt peer None st) = r_pending st"
  by (simp add: openAuction_store bidAuction_store closeAuction_store settle_store
      processMessage_def say_fields)

section \<open>The claims\<close>

text \<open>
  Claim C1 says that on a core whose last entry is a close, every close proposal is rejected
  and nothing is appended, also when the proposer is the owner field of that entry and the
  price is its price. \<^verbatim>\<open>closeAuction\<close> never looks at the type of the last entry
  (\<^verbatim>\<open>bidAuction\<close> does): after the sample scenario the last entry of \<open>pic1\<close> is a
  close with owner B and price 80, and a close by B at 80 returns true and appends a second
  close entry, whose owner field is A again.
\<close>

theorem close_of_closed_auction_accepted:
  "a_type (last (store pic1_closed ''pic1'')) = ''close'' \<and>
   fst (closeAuction ''B'' ''pic1'' ''80'' pic1_closed) \<and>
   store (snd (closeAuction ''B'' ''pic1'' ''80'' pic1_closed)) ''pic1'' =
     store pic1_closed ''pic1'' @
       [\<lparr>a_type = ''close'', a_name = ''pic1'', a_owner = ''A'', a_actor = ''B'',
         a_price = ''80'', a_time = 0\<rparr>]"
  by (simp add: closeAuction_accepts closeAuction_store pic1_closed_store pic1_closed_now)

text \<open>
  Claim C2 says that in every core the prices of the entries that are not closes increase
  strictly, in the order of the core. They do not across a reopening: in the run
  \<open>pic1_resold\<close>, where the operations go one at a time, the core of \<open>pic1\<close> is
  open, bid, close, open, and the prices of its three entries that are not closes are 75,
  80 and 10. They do not either when two bids are in flight together: in \<open>pic1_raced\<close>
  both bids read the open entry, both pass the guard, and the prices are 75, 90 and 80.
\<close>

theorem prices_not_increasing_counterexample:
  "oneAtATime js ''pic1'' (boot ''A'') pic1_resold \<and>
   map e_type (r_store (run js (boot ''A'') pic1_resold) ''pic1'') =
     [''open'', ''bid'', ''close'', ''open''] \<and>
   map (priceNumber js)
     (filter (\<lambda>e. e_type e \<noteq> ''close'') (r_store (run js (boot ''A'') pic1_resold) ''pic1'')) =
     [Num 75, Num 80, Num 10] \<and>
   \<not> sorted_wrt js_less
       (map (priceNumber js)
          (filter (\<lambda>e. e_type e \<noteq> ''close'')
             (r_store (run js (boot ''A'') pic1_resold) ''pic1''))) \<and>
   map e_type (r_store (run js (boot ''A'') pic1_raced) ''pic1'') = [''open'', ''bid'', ''bid''] \<and>
   map (priceNumber js)
     (filter (\<lambda>e. e_type e \<noteq> ''close'') (r_store (run js (boot ''A'') pic1_raced) ''pic1'')) =
     [Num 75, Num 90, Num 80] \<and>
   \<not> sorted_wrt js_less
       (map (priceNumber js)
          (filter (\<lambda>e. e_type e \<noteq> ''close'')
             (r_store (run js (boot ''A'') pic1_raced) ''pic1'')))"
  by (simp add: pic1_resold_store pic1_resold_oneAtATime pic1_raced_store priceNumber_def
      js_strings decimal_examples)

text \<open>
  Claim C2 as amended: take a run of the replica from the empty store in which the
  operations on the core \<open>k\<close> go one at a time, and in the core \<open>k\<close> any stretch made
  of one entry followed by bid entries only (the entries of one round of the auction that
  are not closes are such a stretch). If each price of the stretch is a string, a number
  or a boolean that \<^verbatim>\<open>Number\<close> turns into a number, the prices of the stretch increase
  strictly. Nothing is said of a stretch that goes across a close and the open after it,
  which takes any price, nor of operations in flight together.
\<close>

theorem bids_of_a_round_increase:
  assumes "oneAtATime rt k (boot p) evs"
    and "\<forall>e \<in> set (tl (take n (drop i (r_store (run rt (boot p) evs) k)))). e_type e = ''bid''"
    and "\<forall>e \<in> set (take n (drop i (r_store (run rt (boot p) evs) k))).
           plain (e_price e) \<and> priceNumber rt e \<noteq> NaN"
  shows "sorted_wrt js_less
           (map (priceNumber rt) (take n (drop i (r_store (run rt (boot p) evs) k))))"
proof -
  have "coherent rt k (run rt (boot p) evs)"
    using boot_coherent assms(1) by (rule run_coherent)
  then have "successively (bid_raises rt) (r_store (run rt (boot p) evs) k)"
    by (simp add: coherent_def)
  then have "successively (bid_raises rt) (take n (drop i (r_store (run rt (boot p) evs) k)))"
    by (rule successively_take_drop)
  then have "successively js_less
               (map (priceNumber rt) (take n (drop i (r_store (run rt (boot p) evs) k))))"
    using assms(2,3) by (rule bids_successively_less)
  moreover have "transp js_less"
    by (rule transpI) (rule js_less_trans)
  ultimately show ?thesis
    by (simp only: successively_conv_sorted_wrt)
qed

theorem bids_of_a_round_increase_witness:
  "oneAtATime js ''pic1'' (boot ''A'') pic1_round \<and>
   map e_type (take 3 (drop 0 (r_store (run js (boot ''A'') pic1_round) ''pic1''))) =
     [''open'', ''bid'', ''bid''] \<and>
   map e_price (take 3 (drop 0 (r_store (run js (boot ''A'') pic1_round) ''pic1''))) =
     [JStr ''75'', JStr ''75.5'', JStr ''80''] \<and>
   map (priceNumber js) (take 3 (drop 0 (r_store (run js (boot ''A'') pic1_round) ''pic1''))) =
     [Num 75, Num (151 / 2), Num 80] \<and>
   sorted_wrt js_less
     (map (priceNumber js) (take 3 (drop 0 (r_store (run js (boot ''A'') pic1_round) ''pic1''))))"
  using bids_of_a_round_increase [of js "''pic1''" "''A''" pic1_round 3 0]
  by (simp add: pic1_round_store pic1_round_oneAtATime priceNumber_def js_strings decimal_examples)



text \<open>
  Claim C4 says that a close by the seller at a price numerically equal to the price of the
  last entry is accepted. \<^verbatim>\<open>closeAuction\<close> tests \<^verbatim>\<open>lastAction.price != price\<close> on
  two strings, without the \<^verbatim>\<open>Number\<close> of \<^verbatim>\<open>bidAuction\<close>: after the bid at \<open>80\<close>
  the seller A closes at \<open>80.0\<close>, the two prices are the same number, and the close
  returns false with the message about a different price.
\<close>

theorem close_compares_price_text:
  "decimal ''80.0'' = decimal ''80'' \<and>
   a_type (last (store pic1_bid_80 ''pic1'')) = ''bid'' \<and>
   a_owner (last (store pic1_bid_80 ''pic1'')) = ''A'' \<and>
   a_price (last (store pic1_bid_80 ''pic1'')) = ''80'' \<and>
   \<not> fst (closeAuction ''A'' ''pic1'' ''80.0'' pic1_bid_80) \<and>
   last (console (snd (closeAuction ''A'' ''pic1'' ''80.0'' pic1_bid_80))) =
     ErrorDifferentPrice ''pic1'' ''80.0'' ''A'' ''80''"
  by (simp add: closeAuction_accepts closeAuction_console pic1_bid_80_store decimal_examples)

text \<open>
  Claim C5: on a core whose last entry is a close with owner field W, an open succeeds if and
  only if the proposing peer is W. When it succeeds an open entry owned by that peer is
  appended; when the peer is not W the whole store is as before and the console says that
  the auction can not be reopened by that peer.
\<close>

theorem reopen_by_new_owner_only:
  assumes "store st name \<noteq> []" and "a_type (last (store st name)) = ''close''"
  shows "(fst (openAuction peer name price st) \<longleftrightarrow> peer = a_owner (last (store st name))) \<and>
         (peer = a_owner (last (store st name)) \<longrightarrow>
            store (snd (openAuction peer name price st)) name =
              store st name @ [\<lparr>a_type = ''open'', a_name = name, a_owner = peer,
                                 a_actor = peer, a_price = price, a_time = now st\<rparr>]) \<and>
         (peer \<noteq> a_owner (last (store st name)) \<longrightarrow>
            store (snd (openAuction peer name price st)) = store st \<and>
            last (console (snd (openAuction peer name price st))) = ErrorReopen name peer)"
  using assms by (auto simp: openAuction_accepts openAuction_store openAuction_console)

theorem reopen_by_new_owner_only_witness:
  "store pic1_closed ''pic1'' \<noteq> [] \<and> a_type (last (store pic1_closed ''pic1'')) = ''close'' \<and>
   a_owner (last (store pic1_closed ''pic1'')) = ''B'' \<and>
   fst (openAuction ''B'' ''pic1'' ''10'' pic1_closed) \<and>
   \<not> fst (openAuction ''A'' ''pic1'' ''10'' pic1_closed) \<and>
   store (snd (openAuction ''A'' ''pic1'' ''10'' pic1_closed)) = store pic1_closed \<and>
   last (console (snd (openAuction ''A'' ''pic1'' ''10'' pic1_closed))) = ErrorReopen ''pic1'' ''A''"
  using reopen_by_new_owner_only [of pic1_closed "''pic1''" "''B''" "''10''"]
    reopen_by_new_owner_only [of pic1_closed "''pic1''" "''A''" "''10''"]
  by (simp add: pic1_closed_store)

text \<open>
  Claim C6 says that some open on a core whose last entry is an open or a bid is not
  rejected. There is none: the guard of \<^verbatim>\<open>openAuction\<close> rejects as soon as the type of
  the last entry is not \<open>close\<close>.
\<close>

theorem open_on_active_auction_counterexample:
  "\<not> (\<exists>st peer name price. store st name \<noteq> [] \<and>
        (a_type (last (store st name)) = ''open'' \<or> a_type (last (store st name)) = ''bid'') \<and>
        fst (openAuction peer name price st))"
  by (auto simp: openAuction_accepts)

text \<open>
  Claim C6 as amended: every open on a core whose last entry is an open or a bid is rejected,
  whoever proposes it; the store is as before and the console says that the auction can not
  be reopened by that peer.
\<close>

theorem open_on_active_auction_rejected:
  assumes "store st name \<noteq> []"
    and "a_type (last (store st name)) = ''open'' \<or> a_type (last (store st name)) = ''bid''"
  shows "\<not> fst (openAuction peer name price st) \<and>
         store (snd (openAuction peer name price st)) = store st \<and>
         last (console (snd (openAuction peer name price st))) = ErrorReopen name peer"
  using assms by (auto simp: openAuction_accepts openAuction_store openAuction_console)

theorem open_on_active_auction_rejected_witness:
  "store pic1_bid_80 ''pic1'' \<noteq> [] \<and> a_type (last (store pic1_bid_80 ''pic1'')) = ''bid'' \<and>
   \<not> fst (openAuction ''A'' ''pic1'' ''90'' pic1_bid_80) \<and>
   store (snd (openAuction ''A'' ''pic1'' ''90'' pic1_bid_80)) = store pic1_bid_80 \<and>
   last (console (snd (openAuction ''A'' ''pic1'' ''90'' pic1_bid_80))) = ErrorReopen ''pic1'' ''A''"
  using open_on_active_auction_rejected [of pic1_bid_80 "''pic1''" "''A''" "''90''"]
  by (simp add: pic1_bid_80_store)

text \<open>
  Claim C7 says that a rejected proposal and a malformed inbound message append nothing.
  \<^verbatim>\<open>processMessage\<close> only catches what \<^verbatim>\<open>JSON.parse\<close> throws and checks no field
  of what it returns (\<^verbatim>\<open>processAction\<close> refuses a line of fewer than three tokens):
  the payload of \<open>pic1_no_price\<close> has a type and a name and no price, and on the
  replica of A, where the core of \<open>pic1\<close> is empty, it is appended as an open entry
  whose price is \<^verbatim>\<open>undefined\<close>.
\<close>

theorem payload_without_price_appended:
  "member (JObj [(''type'', JStr ''open''), (''name'', JStr ''pic1'')]) ''price'' = JUndefined \<and>
   r_store (boot ''A'') ''pic1'' = [] \<and>
   r_store (run js (boot ''A'') pic1_no_price) ''pic1'' =
     [\<lparr>e_type = ''open'', e_name = JStr ''pic1'', e_owner = ''B'', e_actor = ''B'',
       e_price = JUndefined, e_time = 0\<rparr>]"
  by (simp add: pic1_no_price_store member_def boot_store)

text \<open>
  Claim C8, the scenario: A opens \<open>pic1\<close> at 75 (accepted); B bids 75 (rejected, the
  console says the price should be higher than 75); C bids 75.5 (accepted); B bids 80
  (accepted); A closes at 80 (accepted, and the close entry has owner B); then an open by A
  is rejected, at any price, and after it an open by B succeeds.
\<close>

theorem sample_scenario:
  "fst (openAuction ''A'' ''pic1'' ''75'' (start ''A'')) \<and>
   \<not> fst (bidAuction decimal ''B'' ''pic1'' ''75'' pic1_opened) \<and>
   last (console pic1_bid_75) = ErrorLowerPrice ''75'' ''pic1'' ''B'' ''75'' \<and>
   fst (bidAuction decimal ''C'' ''pic1'' ''75.5'' pic1_bid_75) \<and>
   fst (bidAuction decimal ''B'' ''pic1'' ''80'' pic1_bid_75_5) \<and>
   fst (closeAuction ''A'' ''pic1'' ''80'' pic1_bid_80) \<and>
   a_type (last (store pic1_closed ''pic1'')) = ''close'' \<and>
   a_owner (last (store pic1_closed ''pic1'')) = ''B'' \<and>
   \<not> fst (openAuction ''A'' ''pic1'' price pic1_closed) \<and>
   last (console (snd (openAuction ''A'' ''pic1'' price pic1_closed))) =
     ErrorReopen ''pic1'' ''A'' \<and>
   fst (openAuction ''B'' ''pic1'' price (snd (openAuction ''A'' ''pic1'' price pic1_closed)))"
  by (simp add: pic1_bid_75_rejected pic1_bid_75_5_accepted pic1_bid_80_accepted
      pic1_close_accepted pic1_closed_store openAuction_accepts openAuction_store
      openAuction_console start_def pic1_bid_75_console)

theorem sample_scenario_witness:
  "\<not> fst (openAuction ''A'' ''pic1'' ''90'' pic1_closed) \<and>
   fst (openAuction ''B'' ''pic1'' ''90'' (snd (openAuction ''A'' ''pic1'' ''90'' pic1_closed)))"
  using sample_scenario [of "''90''"] by simp

text \<open>
  Claim C9. \<^verbatim>\<open>processAction\<close> and \<^verbatim>\<open>processMessage\<close> themselves write nothing to a
  peer and append nothing. A call made by \<^verbatim>\<open>processAction\<close> is made for the local
  peer and carries the message of the line; a call made by \<^verbatim>\<open>processMessage\<close> is
  made for the sending peer and carries no message. When a call in flight goes on to its
  end, the state it leaves has the entry appended to the core exactly when the call
  returned true, and the message written once to every connected peer exactly when the
  call returned true and carries a message, that is, was made by \<^verbatim>\<open>processAction\<close>.
\<close>

theorem broadcast_after_local_success_only:
  assumes "r_pending st = before @ c # after"
    and "ended = settle rt c (st\<lparr>r_pending := before @ after\<rparr>)"
  shows "r_written (processAction rt action st) = r_written st \<and>
         r_store (processAction rt action st) = r_store st \<and>
         (r_pending (processAction rt action st) = r_pending st \<or>
          (\<exists>c'. r_pending (processAction rt action st) = r_pending st @ [c'] \<and>
                c_peer c' = r_localPeer st \<and>
                c_type c' = split [] (trim action) ! 0 \<and>
                c_name c' = JStr (split [] (trim action) ! 1) \<and>
                c_price c' = JStr (split [] (trim action) ! 2) \<and>
                c_msg c' = Some \<lparr>m_type = split [] (trim action) ! 0,
                                   m_name = split [] (trim action) ! 1,
                                   m_price = split [] (trim action) ! 2\<rparr>)) \<and>
         r_written (processMessage rt peer rawMessage st) = r_written st \<and>
         r_store (processMessage rt peer rawMessage st) = r_store st \<and>
         (\<exists>cs. r_pending (processMessage rt peer rawMessage st) = r_pending st @ cs \<and>
               (\<forall>c' \<in> set cs. c_msg c' = None \<and> c_peer c' = peer)) \<and>
         r_written (resume rt (length before) st) =
           r_written st @
           (case c_msg c of
              None \<Rightarrow> []
            | Some m \<Rightarrow> if fst ended = Returned True
                        then map (\<lambda>peer. (peer, m)) (r_connections st) else []) \<and>
         r_store (resume rt (length before) st) =
           (if fst ended = Returned True
            then (r_store st)(c_core c := r_store st (c_core c) @ [appended c (r_now st)])
            else r_store st) \<and>
         r_pending (resume rt (length before) st) = before @ after"
proof (intro conjI)
  show "r_pending (processAction rt action st) = r_pending st \<or>
        (\<exists>c'. r_pending (processAction rt action st) = r_pending st @ [c'] \<and>
              c_peer c' = r_localPeer st \<and>
              c_type c' = split [] (trim action) ! 0 \<and>
              c_name c' = JStr (split [] (trim action) ! 1) \<and>
              c_price c' = JStr (split [] (trim action) ! 2) \<and>
              c_msg c' = Some \<lparr>m_type = split [] (trim action) ! 0,
                                 m_name = split [] (trim action) ! 1,
                                 m_price = split [] (trim action) ! 2\<rparr>)"
    using processAction_pending [of rt action st] by auto
  show "\<exists>cs. r_pending (processMessage rt peer rawMessage st) = r_pending st @ cs \<and>
             (\<forall>c' \<in> set cs. c_msg c' = None \<and> c_peer c' = peer)"
    by (rule processMessage_pending)
  show "r_written (resume rt (length before) st) =
          r_written st @
          (case c_msg c of
             None \<Rightarrow> []
           | Some m \<Rightarrow> if fst ended = Returned True
                       then map (\<lambda>peer. (peer, m)) (r_connections st) else [])"
    by (simp add: resume_at [OF assms(1)] assms(2) settle_rest broadcast_fields
        split: option.splits)
  show "r_store (resume rt (length before) st) =
          (if fst ended = Returned True
           then (r_store st)(c_core c := r_store st (c_core c) @ [appended c (r_now st)])
           else r_store st)"
    by (simp add: resume_at [OF assms(1)] assms(2) settle_store broadcast_fields
        split: option.splits)
  show "r_pending (resume rt (length before) st) = before @ after"
    by (simp add: resume_at [OF assms(1)] settle_rest broadcast_fields split: option.splits)
qed (simp_all add: processAction_fields processMessage_fields)

theorem broadcast_after_local_success_only_witness:
  "length (r_pending pic1_typed) = 1 \<and>
   c_msg (r_pending pic1_typed ! 0) =
     Some \<lparr>m_type = ''open'', m_name = ''pic1'', m_price = ''75''\<rparr> \<and>
   fst (settle js (r_pending pic1_typed ! 0) (pic1_typed\<lparr>r_pending := []\<rparr>)) = Returned True \<and>
   r_written (resume js 0 pic1_typed) =
     [(''B'', \<lparr>m_type = ''open'', m_name = ''pic1'', m_price = ''75''\<rparr>),
      (''C'', \<lparr>m_type = ''open'', m_name = ''pic1'', m_price = ''75''\<rparr>)] \<and>
   r_store (resume js 0 pic1_typed) ''pic1'' =
     [\<lparr>e_type = ''open'', e_name = JStr ''pic1'', e_owner = ''A'', e_actor = ''A'',
       e_price = JStr ''75'', e_time = 0\<rparr>] \<and>
   length (r_pending pic1_mistyped) = 1 \<and>
   c_msg (r_pending pic1_mistyped ! 0) =
     Some \<lparr>m_type = ''bid'', m_name = ''pic1'', m_price = ''80''\<rparr> \<and>
   fst (settle js (r_pending pic1_mistyped ! 0) (pic1_mistyped\<lparr>r_pending := []\<rparr>)) =
     Returned False \<and>
   r_connections pic1_mistyped = [''B'', ''C''] \<and>
   r_written (resume js 0 pic1_mistyped) = [] \<and>
   r_store (resume js 0 pic1_mistyped) ''pic1'' = [] \<and>
   length (r_pending pic1_received) = 1 \<and>
   c_msg (r_pending pic1_received ! 0) = None \<and>
   fst (settle js (r_pending pic1_received ! 0) (pic1_received\<lparr>r_pending := []\<rparr>)) =
     Returned True \<and>
   r_written (resume js 0 pic1_received) = r_written pic1_received \<and>
   length (r_store (resume js 0 pic1_received) ''pic1'') = 2"
proof -
  have typed: "r_pending pic1_typed = [] @ r_pending pic1_typed ! 0 # []"
    by (simp add: pic1_typed_pending)
  have mistyped: "r_pending pic1_mistyped = [] @ r_pending pic1_mistyped ! 0 # []"
    by (simp add: pic1_mistyped_pending)
  have received: "r_pending pic1_received = [] @ r_pending pic1_received ! 0 # []"
    by (simp add: pic1_received_pending)
  have "r_written (resume js (length ([]::call list)) pic1_typed) =
          r_written pic1_typed @
          (case c_msg (r_pending pic1_typed ! 0) of
             None \<Rightarrow> []
           | Some m \<Rightarrow>
               if fst (settle js (r_pending pic1_typed ! 0) (pic1_typed\<lparr>r_pending := [] @ []\<rparr>)) =
                  Returned True
               then map (\<lambda>peer. (peer, m)) (r_connections pic1_typed) else [])"
    using broadcast_after_local_success_only
        [OF typed refl, where rt = js and action = "[]" and peer = "[]" and rawMessage = None]
    by (elim conjE) assumption
  moreover have "r_written (resume js (length ([]::call list)) pic1_mistyped) =
          r_written pic1_mistyped @
          (case c_msg (r_pending pic1_mistyped ! 0) of
             None \<Rightarrow> []
           | Some m \<Rightarrow>
               if fst (settle js (r_pending pic1_mistyped ! 0) (pic1_mistyped\<lparr>r_pending := [] @ []\<rparr>)) =
                  Returned True
               then map (\<lambda>peer. (peer, m)) (r_connections pic1_mistyped) else [])"
    using broadcast_after_local_success_only
        [OF mistyped refl, where rt = js and action = "[]" and peer = "[]" and rawMessage = None]
    by (elim conjE) assumption
  moreover have "r_written (resume js (length ([]::call list)) pic1_received) =
          r_written pic1_received @
          (case c_msg (r_pending pic1_received ! 0) of
             None \<Rightarrow> []
           | Some m \<Rightarrow>
               if fst (settle js (r_pending pic1_received ! 0) (pic1_received\<lparr>r_pending := [] @ []\<rparr>)) =
                  Returned True
               then map (\<lambda>peer. (peer, m)) (r_connections pic1_received) else [])"
    using broadcast_after_local_success_only
        [OF received refl, where rt = js and action = "[]" and peer = "[]" and rawMessage = None]
    by (elim conjE) assumption
  ultimately show ?thesis
    by (simp add: pic1_calls pic1_typed_resumed pic1_mistyped_resumed pic1_received_resumed
        pic1_settled)
qed

text \<open>
  Claim C10: on a core whose last entry is not a close, a bid whose price \<^verbatim>\<open>Number\<close>
  turns into \<open>NaN\<close> passes the guard \<^verbatim>\<open>Number(price) <= Number(lastAction.price)\<close>:
  the bid returns true and is appended with that price.
\<close>

theorem nan_bid_accepted:
  assumes "store st name \<noteq> []" and "a_type (last (store st name)) \<noteq> ''close''"
    and "Number price = NaN"
  shows "fst (bidAuction Number peer name price st) \<and>
         store (snd (bidAuction Number peer name price st)) name =
           store st name @ [\<lparr>a_type = ''bid'', a_name = name,
                              a_owner = a_owner (last (store st name)), a_actor = peer,
                              a_price = price, a_time = now st\<rparr>]"
  using assms by (simp add: bidAuction_accepts bidAuction_store)

theorem nan_bid_accepted_witness:
  "store pic1_bid_80 ''pic1'' \<noteq> [] \<and> a_type (last (store pic1_bid_80 ''pic1'')) \<noteq> ''close'' \<and>
   decimal ''abc'' = NaN \<and>
   fst (bidAuction decimal ''C'' ''pic1'' ''abc'' pic1_bid_80) \<and>
   a_price (last (store (snd (bidAuction decimal ''C'' ''pic1'' ''abc'' pic1_bid_80)) ''pic1'')) =
     ''abc''"
  using nan_bid_accepted [of pic1_bid_80 "''pic1''" decimal "''abc''" "''C''"]
  by (simp add: pic1_bid_80_store decimal_examples)

end
